theory Spec2Isabelle
  imports Main
begin

section \<open>JavaScript values\<close>

text \<open>
  The generator in \<^verbatim>\<open>lib/generateMarkdown.js\<close> works on parsed JSON: schema
  fragments are plain objects read by field name. A value is modelled as the code has it.
  An object is the list of its own members in enumeration order (what \<^verbatim>\<open>for..in\<close> and
  \<^verbatim>\<open>JSON.stringify\<close> walk through); a field that is absent reads as \<open>JUndefined\<close>.
  Numbers are integers: the model stands for the schemas whose numbers are safe integers
  of JavaScript (of magnitude at most \<open>2^53 - 1\<close>, see \<open>safeInteger\<close>), which a double
  holds exactly. Fractional numbers cannot be written in it, and for an integer beyond
  that range the model does not follow the double the source computes with. Objects and
  arrays are values (trees), so two members never share one mutable object.
\<close>

datatype jsval =
    JUndefined
  | JNull
  | JBool bool
  | JNum int
  | JStr string
  | JArr "jsval list"
  | JObj "(string \<times> jsval) list"

text \<open>Exceptions of the run: a read through null or undefined, a call of a value that is
  not a function, an iteration over a value that is not iterable (all \<open>TypeError\<close>), and the
  exhausted call stack of an unbounded recursion (\<open>RangeError\<close>).\<close>

datatype error = TypeError | RangeError

fun andThen :: "error + 'a \<Rightarrow> ('a \<Rightarrow> error + 'b) \<Rightarrow> error + 'b" where
  "andThen (Inl e) f = Inl e"
| "andThen (Inr x) f = f x"

abbreviation NL :: string where
  "NL \<equiv> [CHR 0x0A]"

text \<open>\<^verbatim>\<open>lib/defined.js\<close> and \<^verbatim>\<open>lib/defaultValue.js\<close> are helper modules outside
  the verified file: a value is defined when it is neither undefined nor null, and
  \<open>defaultValue a b\<close> is \<open>a\<close> when \<open>a\<close> is defined, else \<open>b\<close>.\<close>

definition defined :: "jsval \<Rightarrow> bool" where
  "defined v = (v \<noteq> JUndefined \<and> v \<noteq> JNull)"

definition defaultValue :: "jsval \<Rightarrow> jsval \<Rightarrow> jsval" where
  "defaultValue a b = (if defined a then a else b)"

text \<open>The property read \<^verbatim>\<open>v.k\<close> for a field name \<open>k\<close> of the schema vocabulary
  (never \<^verbatim>\<open>length\<close> or an index). On an object it is the field or undefined; a
  number, boolean, string or array has no such field. Through null or undefined the read
  throws: \<open>getE\<close> is used wherever the source reads without a guard, \<open>get\<close> where the
  value is known to be defined.\<close>

fun get :: "jsval \<Rightarrow> string \<Rightarrow> jsval" where
  "get (JObj members) k = (case map_of members k of None \<Rightarrow> JUndefined | Some v \<Rightarrow> v)"
| "get v k = JUndefined"

definition getE :: "jsval \<Rightarrow> string \<Rightarrow> error + jsval" where
  "getE v k = (if defined v then Inr (get v k) else Inl TypeError)"

text \<open>Truthiness, as \<^verbatim>\<open>if (v)\<close> and \<^verbatim>\<open>a && b\<close> test it.\<close>

fun truthy :: "jsval \<Rightarrow> bool" where
  "truthy JUndefined = False"
| "truthy JNull = False"
| "truthy (JBool b) = b"
| "truthy (JNum n) = (n \<noteq> 0)"
| "truthy (JStr s) = (s \<noteq> [])"
| "truthy (JArr xs) = True"
| "truthy (JObj members) = True"

text \<open>Strict equality \<^verbatim>\<open>a === b\<close>: by value on primitives, by identity on objects
  and arrays, and two distinct members never hold the same object.\<close>

fun strictEq :: "jsval \<Rightarrow> jsval \<Rightarrow> bool" where
  "strictEq (JArr xs) b = False"
| "strictEq (JObj members) b = False"
| "strictEq a b = (a = b)"

subsection \<open>Numbers and strings\<close>

definition digitChar :: "nat \<Rightarrow> char" where
  "digitChar d =
     (if d = 0 then CHR ''0'' else if d = 1 then CHR ''1'' else if d = 2 then CHR ''2''
      else if d = 3 then CHR ''3'' else if d = 4 then CHR ''4'' else if d = 5 then CHR ''5''
      else if d = 6 then CHR ''6'' else if d = 7 then CHR ''7'' else if d = 8 then CHR ''8''
      else CHR ''9'')"

fun showNat :: "nat \<Rightarrow> string" where
  "showNat n = (if n < 10 then [digitChar n] else showNat (n div 10) @ [digitChar (n mod 10)])"

declare showNat.simps [simp del]

definition showInt :: "int \<Rightarrow> string" where
  "showInt i = (if i < 0 then CHR ''-'' # showNat (nat (- i)) else showNat (nat i))"

text \<open>The safe integers, from \<^verbatim>\<open>Number.MIN_SAFE_INTEGER\<close> to
  \<^verbatim>\<open>Number.MAX_SAFE_INTEGER\<close>. For these the number-to-string conversion of the
  source gives the decimal digits \<open>showInt\<close> gives; beyond them it rounds to a double
  and, from \<open>10^21\<close> on, writes an exponent (\<^verbatim>\<open>1e+21\<close>), which \<open>showInt\<close> does not.\<close>

definition safeInteger :: "int \<Rightarrow> bool" where
  "safeInteger n = (- 9007199254740991 \<le> n \<and> n \<le> 9007199254740991)"

fun joinWith :: "string \<Rightarrow> string list \<Rightarrow> string" where
  "joinWith sep [] = []"
| "joinWith sep [x] = x"
| "joinWith sep (x # y # ys) = x @ sep @ joinWith sep (y # ys)"

text \<open>String conversion, as template literals and \<^verbatim>\<open>+\<close> with a string apply it.
  An array joins its elements with commas, null and undefined elements as the empty
  string; a plain object is \<^verbatim>\<open>[object Object]\<close>. A number is written in decimal
  digits, which is the conversion of the source for the safe integers only.\<close>

fun jsToString :: "jsval \<Rightarrow> string" where
  "jsToString JUndefined = ''undefined''"
| "jsToString JNull = ''null''"
| "jsToString (JBool b) = (if b then ''true'' else ''false'')"
| "jsToString (JNum n) = showInt n"
| "jsToString (JStr s) = s"
| "jsToString (JArr xs) =
     joinWith '','' (map (\<lambda>x. if x = JUndefined \<or> x = JNull then [] else jsToString x) xs)"
| "jsToString (JObj members) = ''[object Object]''"

definition toLowerChar :: "char \<Rightarrow> char" where
  "toLowerChar c =
     (case map_of (zip ''ABCDEFGHIJKLMNOPQRSTUVWXYZ'' ''abcdefghijklmnopqrstuvwxyz'') c of
        None \<Rightarrow> c | Some l \<Rightarrow> l)"

text \<open>\<^verbatim>\<open>s.toLowerCase()\<close> on ASCII letters.\<close>

definition toLowerCase :: "string \<Rightarrow> string" where
  "toLowerCase s = map toLowerChar s"

text \<open>\<^verbatim>\<open>s.replace(/ /g, ".")\<close>: every space becomes a dot.\<close>

definition replaceSpaces :: "string \<Rightarrow> string" where
  "replaceSpaces s = map (\<lambda>c. if c = CHR '' '' then CHR ''.'' else c) s"

text \<open>\<^verbatim>\<open>s.replace(pat, rep)\<close> with a string pattern: the first occurrence only,
  wherever it is.\<close>

fun replaceFirst :: "string \<Rightarrow> string \<Rightarrow> string \<Rightarrow> string" where
  "replaceFirst pat rep [] = (if pat = [] then rep else [])"
| "replaceFirst pat rep (c # cs) =
     (if take (length pat) (c # cs) = pat then rep @ drop (length pat) (c # cs)
      else c # replaceFirst pat rep cs)"

section \<open>The style module\<close>

text \<open>\<^verbatim>\<open>lib/style.js\<close> is outside the verified file. The generator is modelled for
  every style: the functions and the two strings it reads from the module are the members
  of a record, taken as a parameter.\<close>

datatype embedMode = FullExpansion | WriteIncludeStatements | ReferenceIncludeDocument

record style =
  getHeaderMarkdown :: "int \<Rightarrow> string"
  getSectionMarkdown :: "jsval \<Rightarrow> int \<Rightarrow> jsval \<Rightarrow> embedMode \<Rightarrow> string"
  getTOCLink :: "string \<Rightarrow> jsval \<Rightarrow> string"
  bulletItem :: "string \<Rightarrow> nat option \<Rightarrow> string"
  embedJsonSchema :: "jsval \<Rightarrow> jsval \<Rightarrow> string"
  getSchemaEmbedLink :: "jsval \<Rightarrow> jsval \<Rightarrow> string"
  getLinkMarkdown :: "jsval \<Rightarrow> string \<Rightarrow> string"
  bold :: "string \<Rightarrow> string"
  propertyGltfWebGL :: "string \<Rightarrow> string"
  propertyDetails :: "string \<Rightarrow> string"
  propertyNameSummary :: "string \<Rightarrow> string"
  beginTable :: "string list \<Rightarrow> string"
  addTableRow :: "jsval list \<Rightarrow> string"
  endTable :: string
  styleDefaultValue :: "jsval \<Rightarrow> jsval \<Rightarrow> string"
  minMax :: "jsval \<Rightarrow> string"
  typeValue :: "jsval \<Rightarrow> string"
  linkType :: "jsval \<Rightarrow> jsval \<Rightarrow> jsval \<Rightarrow> jsval"
  enumElement :: "jsval \<Rightarrow> jsval \<Rightarrow> string"
  requiredIcon :: string
  mustKeyword :: string

section \<open>The type graph and the table of contents\<close>

text \<open>An entry of the Resolver's \<^verbatim>\<open>referencedSchemas\<close>: the schema of the type, its
  file name, the titles of its parents and of its children. The graph is the ordered map
  from title to entry.\<close>

record typeEntry =
  t_schema :: jsval
  t_fileName :: jsval
  t_parents :: "string list"
  t_children :: "string list"

type_synonym typeGraph = "(string \<times> typeEntry) list"

text \<open>The document identifier of a type: its \<^verbatim>\<open>typeName\<close> when defined, else the
  title in lower case with dots for spaces.\<close>

definition tocTypeName :: "jsval \<Rightarrow> string \<Rightarrow> jsval" where
  "tocTypeName typeName title =
     (if defined typeName then typeName else JStr (replaceSpaces (toLowerCase title)))"

text \<open>\<open>getRecursiveTOC\<close> calls itself once per level of nesting and nothing bounds the
  nesting, so the model carries the number of call frames left: with none left the call
  throws \<open>RangeError\<close>. The loop over the children is \<open>getRecursiveTOC_loop\<close>.\<close>

fun getRecursiveTOC :: "style \<Rightarrow> nat \<Rightarrow> typeGraph \<Rightarrow> string \<Rightarrow> nat \<Rightarrow> error + string"
  and getRecursiveTOC_loop ::
    "style \<Rightarrow> nat \<Rightarrow> typeGraph \<Rightarrow> string \<Rightarrow> nat \<Rightarrow> string list \<Rightarrow> error + string"
where
  "getRecursiveTOC st 0 orderedTypes parentTitle depth = Inl RangeError"
| "getRecursiveTOC st (Suc stack) orderedTypes parentTitle depth =
     (case map_of orderedTypes parentTitle of
        None \<Rightarrow> Inl TypeError
      | Some parentType \<Rightarrow>
          getRecursiveTOC_loop st stack orderedTypes parentTitle depth (t_children parentType))"
| "getRecursiveTOC_loop st stack orderedTypes parentTitle depth [] = Inr []"
| "getRecursiveTOC_loop st stack orderedTypes parentTitle depth (currentTitle # rest) =
     (case map_of orderedTypes currentTitle of
        None \<Rightarrow> Inl TypeError
      | Some currentType \<Rightarrow>
          if length (t_parents currentType) = 1 then
            andThen (getE (t_schema currentType) ''typeName'') (\<lambda>typeName.
            andThen (getRecursiveTOC st stack orderedTypes currentTitle (depth + 1)) (\<lambda>sub.
            andThen (getRecursiveTOC_loop st stack orderedTypes parentTitle depth rest) (\<lambda>more.
              Inr (bulletItem st
                     (getTOCLink st (replaceFirst (parentTitle @ '' '') [] currentTitle)
                        (tocTypeName typeName currentTitle))
                     (Some depth)
                   @ sub @ more))))
          else getRecursiveTOC_loop st stack orderedTypes parentTitle depth rest)"

text \<open>The loop of \<open>getTableOfContentsMarkdown\<close> over the types still to visit.\<close>

fun getTableOfContentsMarkdown_loop ::
  "style \<Rightarrow> nat \<Rightarrow> jsval \<Rightarrow> typeGraph \<Rightarrow> typeGraph \<Rightarrow> error + string" where
  "getTableOfContentsMarkdown_loop st stack schema orderedTypes [] = Inr []"
| "getTableOfContentsMarkdown_loop st stack schema orderedTypes ((title, currentType) # rest) =
     andThen (getE schema ''title'') (\<lambda>rootTitle.
       if JStr title = rootTitle \<or> length (t_parents currentType) > 1
          \<or> rootTitle \<in> set (map JStr (t_parents currentType))
       then
         andThen (getE (t_schema currentType) ''typeName'') (\<lambda>typeName.
         andThen (if JStr title \<noteq> rootTitle
                  then getRecursiveTOC st stack orderedTypes title 1 else Inr []) (\<lambda>sub.
         andThen (getTableOfContentsMarkdown_loop st stack schema orderedTypes rest) (\<lambda>more.
           Inr (bulletItem st
                  (getTOCLink st title (tocTypeName typeName title)
                   @ (if JStr title = rootTitle then '' (root object)'' else []))
                  None
                @ sub @ more))))
       else getTableOfContentsMarkdown_loop st stack schema orderedTypes rest)"

definition getTableOfContentsMarkdown ::
  "style \<Rightarrow> nat \<Rightarrow> jsval \<Rightarrow> typeGraph \<Rightarrow> int \<Rightarrow> error + string" where
  "getTableOfContentsMarkdown st stack schema orderedTypes headerLevel =
     andThen (getTableOfContentsMarkdown_loop st stack schema orderedTypes orderedTypes) (\<lambda>body.
       Inr (getHeaderMarkdown st headerLevel @ '' Objects'' @ NL @ body))"

section \<open>Iteration over values\<close>

text \<open>The elements a counting loop \<^verbatim>\<open>for (i = 0; i < v.length; ++i) v[i]\<close> visits:
  those of an array, the characters of a string; a number or a boolean has no length and
  the body never runs. An object is taken to have no field named \<^verbatim>\<open>length\<close>.\<close>

fun arrayLike :: "jsval \<Rightarrow> jsval list" where
  "arrayLike (JArr xs) = xs"
| "arrayLike (JStr s) = map (\<lambda>c. JStr [c]) s"
| "arrayLike v = []"

text \<open>The indexed read \<^verbatim>\<open>v[i]\<close> of a defined value.\<close>

fun getIndex :: "jsval \<Rightarrow> nat \<Rightarrow> jsval" where
  "getIndex (JArr xs) i = (if i < length xs then xs ! i else JUndefined)"
| "getIndex (JStr s) i = (if i < length s then JStr [s ! i] else JUndefined)"
| "getIndex (JObj members) i = get (JObj members) (showNat i)"
| "getIndex v i = JUndefined"

text \<open>\<^verbatim>\<open>for (const x of v)\<close>: arrays and strings are iterable, nothing else in JSON is.\<close>

fun iterate :: "jsval \<Rightarrow> error + jsval list" where
  "iterate (JArr xs) = Inr xs"
| "iterate (JStr s) = Inr (map (\<lambda>c. JStr [c]) s)"
| "iterate v = Inl TypeError"

text \<open>The own enumerable members \<^verbatim>\<open>for (const name in v)\<close> and \<^verbatim>\<open>Object.keys(v)\<close>
  go through, each with its value \<^verbatim>\<open>v[name]\<close>.\<close>

fun ownEntries :: "jsval \<Rightarrow> (string \<times> jsval) list" where
  "ownEntries (JObj members) = members"
| "ownEntries (JArr xs) = zip (map showNat [0..<length xs]) xs"
| "ownEntries (JStr s) = zip (map showNat [0..<length s]) (map (\<lambda>c. JStr [c]) s)"
| "ownEntries v = []"

text \<open>\<^verbatim>\<open>properties.hasOwnProperty(name)\<close> for an own field \<open>name\<close>: the method comes
  from the prototype unless the object has a field of that name itself, and a JSON value
  is never callable.\<close>

fun hasOwnProperty :: "jsval \<Rightarrow> string \<Rightarrow> error + bool" where
  "hasOwnProperty (JObj members) name =
     (if map_of members ''hasOwnProperty'' = None then Inr True else Inl TypeError)"
| "hasOwnProperty v name = Inr True"

text \<open>Running a loop body over the elements in order; the first exception ends the loop.\<close>

fun mapE :: "('a \<Rightarrow> error + 'b) \<Rightarrow> 'a list \<Rightarrow> error + 'b list" where
  "mapE f [] = Inr []"
| "mapE f (x # xs) = andThen (f x) (\<lambda>y. andThen (mapE f xs) (\<lambda>ys. Inr (y # ys)))"

text \<open>The assignment \<^verbatim>\<open>o.k = v\<close> on an object: an existing field keeps its place, a
  new one goes last. The source assigns only to objects.\<close>

fun setFieldList :: "(string \<times> jsval) list \<Rightarrow> string \<Rightarrow> jsval \<Rightarrow> (string \<times> jsval) list" where
  "setFieldList [] k v = [(k, v)]"
| "setFieldList ((k', v') # members) k v =
     (if k' = k then (k, v) # members else (k', v') # setFieldList members k v)"

fun setField :: "jsval \<Rightarrow> string \<Rightarrow> jsval \<Rightarrow> jsval" where
  "setField (JObj members) k v = JObj (setFieldList members k v)"
| "setField o' k v = o'"

subsection \<open>JSON.stringify\<close>

definition hexDigit :: "nat \<Rightarrow> char" where
  "hexDigit d =
     (if d < 10 then digitChar d else if d = 10 then CHR ''a'' else if d = 11 then CHR ''b''
      else if d = 12 then CHR ''c'' else if d = 13 then CHR ''d'' else if d = 14 then CHR ''e''
      else CHR ''f'')"

definition escapeChar :: "char \<Rightarrow> string" where
  "escapeChar c =
     (if c = CHR 0x22 then [CHR 0x5C, CHR 0x22]
      else if c = CHR 0x5C then [CHR 0x5C, CHR 0x5C]
      else if c = CHR 0x08 then [CHR 0x5C, CHR ''b'']
      else if c = CHR 0x0C then [CHR 0x5C, CHR ''f'']
      else if c = CHR 0x0A then [CHR 0x5C, CHR ''n'']
      else if c = CHR 0x0D then [CHR 0x5C, CHR ''r'']
      else if c = CHR 0x09 then [CHR 0x5C, CHR ''t'']
      else if (of_char c :: nat) < 32
        then [CHR 0x5C, CHR ''u'', CHR ''0'', CHR ''0'',
              hexDigit ((of_char c :: nat) div 16), hexDigit ((of_char c :: nat) mod 16)]
      else [c])"

definition quote :: "string \<Rightarrow> string" where
  "quote s = [CHR 0x22] @ concat (map escapeChar s) @ [CHR 0x22]"

text \<open>\<^verbatim>\<open>JSON.stringify(v)\<close> without indentation: a field whose value is undefined is
  left out, an undefined array element is written \<^verbatim>\<open>null\<close>. Numbers are written as
  \<open>jsToString\<close> writes them, exact for the safe integers.\<close>

fun stringify :: "jsval \<Rightarrow> string" where
  "stringify JUndefined = ''null''"
| "stringify JNull = ''null''"
| "stringify (JBool b) = (if b then ''true'' else ''false'')"
| "stringify (JNum n) = showInt n"
| "stringify (JStr s) = quote s"
| "stringify (JArr xs) = ''['' @ joinWith '','' (map stringify xs) @ '']''"
| "stringify (JObj members) =
     ''{'' @ joinWith '',''
              (map (\<lambda>(k, v). quote k @ '':'' @ stringify v)
                 (filter (\<lambda>(k, v). v \<noteq> JUndefined) members))
     @ ''}''"

section \<open>Property descriptors\<close>

text \<open>The loop of \<open>getPropertyType\<close> over the \<^verbatim>\<open>anyOf\<close> branches: \<open>type\<close> is
  overwritten by each branch and the loop stops at the first defined one.\<close>

fun getPropertyType_loop :: "jsval \<Rightarrow> jsval list \<Rightarrow> error + jsval" where
  "getPropertyType_loop type [] = Inr type"
| "getPropertyType_loop type (element # rest) =
     andThen (getE element ''type'') (\<lambda>type'.
       if defined type' then Inr type' else getPropertyType_loop type' rest)"

definition getPropertyType :: "jsval \<Rightarrow> error + jsval" where
  "getPropertyType schema =
     andThen (getE schema ''typeName'') (\<lambda>typeName.
       if defined typeName then Inr typeName
       else let type = get schema ''type'' in
         if defined type then Inr type
         else let propertyAnyOf = get schema ''anyOf'' in
           if \<not> defined propertyAnyOf then Inr JUndefined
           else getPropertyType_loop type (arrayLike propertyAnyOf))"

text \<open>\<open>autoLinkDescription\<close> uses the keys of \<open>knownTypes\<close> only.\<close>

definition autoLinkDescription :: "style \<Rightarrow> jsval \<Rightarrow> typeGraph \<Rightarrow> jsval \<Rightarrow> jsval" where
  "autoLinkDescription st description knownTypes autoLink =
     fold (\<lambda>type d. linkType st d (JStr type) autoLink) (map fst knownTypes) description"

record propertySummary =
  s_type :: jsval
  s_formattedType :: jsval
  s_description :: jsval
  s_required :: string

text \<open>The text between the brackets of an array type, from \<^verbatim>\<open>minItems\<close> and
  \<^verbatim>\<open>maxItems\<close>, and the bracketed suffix \<open>arrayInfo\<close>.\<close>

definition insideBrackets :: "jsval \<Rightarrow> string" where
  "insideBrackets property =
     (let minItems = get property ''minItems''; maxItems = get property ''maxItems'' in
      if defined minItems \<and> strictEq minItems maxItems then jsToString minItems
      else if defined minItems \<and> defined maxItems
        then jsToString minItems @ ''-'' @ jsToString maxItems
      else if defined minItems then jsToString minItems @ ''-*''
      else if defined maxItems then ''*-'' @ jsToString maxItems
      else [])"

definition arrayInfo :: "jsval \<Rightarrow> string" where
  "arrayInfo property = ''['' @ insideBrackets property @ '']''"

text \<open>The type an array property is displayed with, before the suffix: the type of its
  items when they declare one (for objects through \<open>getPropertyType\<close>), else the
  property's own type.\<close>

definition arrayBaseType :: "jsval \<Rightarrow> jsval \<Rightarrow> error + jsval" where
  "arrayBaseType property type =
     (let items = get property ''items'' in
      if defined items \<and> defined (get items ''type'') then
        if get items ''type'' = JStr ''object'' then getPropertyType items
        else Inr (get items ''type'')
      else Inr type)"

text \<open>The string placed after \<^verbatim>\<open>No, default:\<close>, before the style formats it.\<close>

definition defaultString :: "jsval \<Rightarrow> jsval" where
  "defaultString propertyDefault =
     (case propertyDefault of
        JArr xs \<Rightarrow> JStr (''['' @ jsToString (JArr xs) @ '']'')
      | JObj members \<Rightarrow> JStr (stringify (JObj members))
      | v \<Rightarrow> v)"

definition getPropertySummary ::
  "style \<Rightarrow> jsval \<Rightarrow> typeGraph \<Rightarrow> jsval \<Rightarrow> error + propertySummary" where
  "getPropertySummary st property knownTypes autoLink =
     andThen (getPropertyType property) (\<lambda>propertyType.
       let type0 = defaultValue propertyType (JStr ''any'') in
       andThen (if type0 = JStr ''array''
                then andThen (arrayBaseType property type0) (\<lambda>base.
                       let type = JStr (jsToString base @ arrayInfo property) in
                       Inr (type, JStr (typeValue st type)))
                else Inr (type0, linkType st (JStr (typeValue st type0)) type0 autoLink))
         (\<lambda>(type, formattedType).
            let description = autoLinkDescription st (get property ''description'') knownTypes autoLink;
                required =
                  (if defined (get property ''required'') \<and> truthy (get property ''required'')
                   then requiredIcon st @ ''Yes''
                   else let propertyDefault = get property ''default'' in
                     if defined propertyDefault
                     then ''No, default: '' @ styleDefaultValue st (defaultString propertyDefault) type
                     else ''No'')
            in Inr \<lparr> s_type = type, s_formattedType = formattedType,
                     s_description = description, s_required = required \<rparr>))"

section \<open>Enumerations\<close>

text \<open>The text a branch or value contributes: the styled value, then the description
  when one is defined.\<close>

definition enumLine :: "style \<Rightarrow> jsval \<Rightarrow> jsval \<Rightarrow> jsval \<Rightarrow> string" where
  "enumLine st v type enumDescription =
     enumElement st v type
     @ (if defined enumDescription then '' '' @ jsToString enumDescription else [])"

fun getAnyOfEnumString_loop :: "style \<Rightarrow> jsval \<Rightarrow> nat \<Rightarrow> jsval list \<Rightarrow> error + string" where
  "getAnyOfEnumString_loop st type depth [] = Inr []"
| "getAnyOfEnumString_loop st type depth (element # rest) =
     andThen (getE element ''const'') (\<lambda>constValue.
       let enumValue = get element ''enum'';
           enumDescription = get element ''description'' in
       if defined constValue then
         andThen (getAnyOfEnumString_loop st type depth rest) (\<lambda>more.
           Inr (bulletItem st (enumLine st constValue type enumDescription) (Some depth) @ more))
       else (case enumValue of
               JArr (v # vs) \<Rightarrow>
                 andThen (getAnyOfEnumString_loop st type depth rest) (\<lambda>more.
                   Inr (bulletItem st (enumLine st v type enumDescription) (Some depth) @ more))
             | _ \<Rightarrow> getAnyOfEnumString_loop st type depth rest))"

text \<open>The result is \<open>None\<close> where the source returns undefined.\<close>

definition getAnyOfEnumString :: "style \<Rightarrow> jsval \<Rightarrow> jsval \<Rightarrow> nat \<Rightarrow> error + string option" where
  "getAnyOfEnumString st schema type depth =
     andThen (getE schema ''anyOf'') (\<lambda>propertyAnyOf.
       if \<not> defined propertyAnyOf then Inr None
       else andThen (getAnyOfEnumString_loop st type depth (arrayLike propertyAnyOf))
              (\<lambda>allowedValues. Inr (Some allowedValues)))"

definition getEnumString :: "style \<Rightarrow> jsval \<Rightarrow> jsval \<Rightarrow> nat \<Rightarrow> error + string option" where
  "getEnumString st schema type depth =
     andThen (getE schema ''enum'') (\<lambda>propertyEnum.
       if \<not> defined propertyEnum then getAnyOfEnumString st schema type depth
       else let propertyEnumNames = get schema ''gltf_enumNames'';
                elements = arrayLike propertyEnum in
         Inr (Some (concat (map (\<lambda>i.
           bulletItem st
             (enumElement st (elements ! i) type
              @ (if defined propertyEnumNames
                 then '' '' @ jsToString (getIndex propertyEnumNames i) else []))
             (Some depth)) [0..<length elements]))))"

section \<open>Rendering one type\<close>

text \<open>One row of the summary table, for the property \<open>name\<close> of \<open>properties\<close>.\<close>

definition createPropertiesSummary_row ::
  "style \<Rightarrow> typeGraph \<Rightarrow> jsval \<Rightarrow> jsval \<Rightarrow> string \<times> jsval \<Rightarrow> error + string" where
  "createPropertiesSummary_row st knownTypes autoLink properties entry =
     (case entry of (name, property) \<Rightarrow>
        andThen (hasOwnProperty properties name) (\<lambda>own.
          if own then
            andThen (getPropertySummary st property knownTypes autoLink) (\<lambda>summary.
              Inr (addTableRow st
                     [JStr (propertyNameSummary st name),
                      s_formattedType summary,
                      defaultValue (s_description summary) (JStr []),
                      JStr ((if s_required summary = ''Yes'' then requiredIcon st else [])
                            @ s_required summary)]))
          else Inr []))"

definition createPropertiesSummary ::
  "style \<Rightarrow> jsval \<Rightarrow> typeGraph \<Rightarrow> jsval \<Rightarrow> error + string" where
  "createPropertiesSummary st schema knownTypes autoLink =
     andThen (getE schema ''properties'') (\<lambda>properties.
       if properties = JUndefined then Inr []
       else if properties = JNull then Inl TypeError
       else if length (ownEntries properties) > 0 then
         andThen (mapE (createPropertiesSummary_row st knownTypes autoLink properties)
                    (ownEntries properties)) (\<lambda>rows.
           Inr (beginTable st [''Property'', ''Type'', ''Description'', ''Required'']
                @ concat rows @ endTable st))
       else Inr [])"

definition createExamples :: "style \<Rightarrow> jsval \<Rightarrow> int \<Rightarrow> error + string" where
  "createExamples st schema headerLevel =
     andThen (getE schema ''examples'') (\<lambda>examples.
       if \<not> defined examples then Inr []
       else andThen (iterate examples) (\<lambda>values.
         Inr (getHeaderMarkdown st headerLevel @ '' Examples'' @ NL @ NL
              @ concat (map (\<lambda>example.
                  bulletItem st (styleDefaultValue st example (get schema ''type'')) (Some 0))
                  values))))"

subsection \<open>The details of one property\<close>

text \<open>``Downgrade newer schemas'': a numeric \<^verbatim>\<open>exclusiveMinimum\<close> of the items is moved
  to \<^verbatim>\<open>minimum\<close> and replaced by \<^verbatim>\<open>true\<close>, likewise for the maximum. The source
  assigns to the items object itself.\<close>

definition downgrade :: "jsval \<Rightarrow> jsval" where
  "downgrade items =
     (let items1 =
            (case get items ''exclusiveMinimum'' of
               JNum n \<Rightarrow> setField (setField items ''minimum'' (JNum n)) ''exclusiveMinimum'' (JBool True)
             | _ \<Rightarrow> items)
      in case get items1 ''exclusiveMaximum'' of
           JNum n \<Rightarrow> setField (setField items1 ''maximum'' (JNum n)) ''exclusiveMaximum'' (JBool True)
         | _ \<Rightarrow> items1)"

text \<open>The bullet for the range of the items, read from the downgraded items.\<close>

definition itemsRange :: "style \<Rightarrow> string \<Rightarrow> jsval \<Rightarrow> string" where
  "itemsRange st eachElementInTheArrayMust items =
     (let itemsExclusiveMinimum =
            (defined (get items ''exclusiveMinimum'') \<and> truthy (get items ''exclusiveMinimum''));
          minString = (if itemsExclusiveMinimum then ''greater than'' else ''greater than or equal to'');
          itemsExclusiveMaximum =
            (defined (get items ''exclusiveMaximum'') \<and> truthy (get items ''exclusiveMaximum''));
          maxString = (if itemsExclusiveMaximum then ''less than'' else ''less than or equal to'')
      in if defined (get items ''minimum'') \<and> defined (get items ''maximum'') then
           bulletItem st (eachElementInTheArrayMust @ ''be '' @ minString @ '' ''
             @ minMax st (get items ''minimum'') @ '' and '' @ maxString @ '' ''
             @ minMax st (get items ''maximum'') @ ''.'') (Some 1)
         else if defined (get items ''minimum'') then
           bulletItem st (eachElementInTheArrayMust @ ''be '' @ minString @ '' ''
             @ minMax st (get items ''minimum'') @ ''.'') (Some 1)
         else if defined (get items ''maximum'') then
           bulletItem st (eachElementInTheArrayMust @ ''be '' @ maxString @ '' ''
             @ minMax st (get items ''maximum'') @ ''.'') (Some 1)
         else [])"

definition itemsLength :: "style \<Rightarrow> string \<Rightarrow> jsval \<Rightarrow> string" where
  "itemsLength st eachElementInTheArrayMust items =
     (if defined (get items ''minLength'') \<and> defined (get items ''maxLength'') then
        bulletItem st (eachElementInTheArrayMust @ ''have length between ''
          @ minMax st (get items ''minLength'') @ '' and ''
          @ minMax st (get items ''maxLength'') @ ''.'') (Some 1)
      else if defined (get items ''minLength'') then
        bulletItem st (eachElementInTheArrayMust @ ''have length greater than or equal to ''
          @ minMax st (get items ''minLength'') @ ''.'') (Some 1)
      else if defined (get items ''maxLength'') then
        bulletItem st (eachElementInTheArrayMust @ ''have length less than or equal to ''
          @ minMax st (get items ''maxLength'') @ ''.'') (Some 1)
      else [])"

text \<open>The block for \<^verbatim>\<open>property.items\<close>: the text, and the property after the
  assignment to its items.\<close>

definition itemsDetails ::
  "style \<Rightarrow> jsval \<Rightarrow> jsval \<Rightarrow> error + string \<times> jsval" where
  "itemsDetails st property type =
     (let eachElementInTheArrayMust = ''Each element in the array'' @ mustKeyword st;
          items0 = get property ''items'' in
      if defined items0 then
        let items = downgrade items0 in
        andThen (getEnumString st items type 2) (\<lambda>itemsString.
          Inr (itemsRange st eachElementInTheArrayMust items
               @ itemsLength st eachElementInTheArrayMust items
               @ (case itemsString of
                    None \<Rightarrow> []
                  | Some text \<Rightarrow>
                      bulletItem st (eachElementInTheArrayMust @ ''be one of the following values:'')
                        (Some 1) @ text),
               setField property ''items'' items))
      else Inr ([], property))"

text \<open>The bullets for the property's own minimum and maximum.\<close>

definition minimumDetails :: "style \<Rightarrow> jsval \<Rightarrow> string" where
  "minimumDetails st property =
     (case get property ''exclusiveMinimum'' of
        JNum n \<Rightarrow>
          bulletItem st (propertyDetails st ''Minimum'' @ '': ''
            @ minMax st (JStr ('' > '' @ jsToString (JNum n)))) (Some 0)
      | _ \<Rightarrow>
          let minimum = get property ''minimum'' in
          if defined minimum then
            let exclusiveMinimum =
                  (defined (get property ''exclusiveMinimum'')
                   \<and> truthy (get property ''exclusiveMinimum''))
            in bulletItem st (propertyDetails st ''Minimum'' @ '': ''
                 @ minMax st (JStr ((if exclusiveMinimum then '' > '' else '' >= '')
                                    @ jsToString minimum))) (Some 0)
          else [])"

definition maximumDetails :: "style \<Rightarrow> jsval \<Rightarrow> string" where
  "maximumDetails st property =
     (case get property ''exclusiveMaximum'' of
        JNum n \<Rightarrow>
          bulletItem st (propertyDetails st ''Maximum'' @ '': ''
            @ minMax st (JStr ('' < '' @ jsToString (JNum n)))) (Some 0)
      | _ \<Rightarrow>
          let maximum = get property ''maximum'' in
          if defined maximum then
            let exclusiveMaximum =
                  (defined (get property ''exclusiveMaximum'')
                   \<and> truthy (get property ''exclusiveMaximum''))
            in bulletItem st (propertyDetails st ''Maximum'' @ '': ''
                 @ minMax st (JStr ((if exclusiveMaximum then '' < '' else '' <= '')
                                    @ jsToString maximum))) (Some 0)
          else [])"

text \<open>Format, pattern and the two lengths.\<close>

definition scalarDetails :: "style \<Rightarrow> jsval \<Rightarrow> string" where
  "scalarDetails st property =
     (let format = get property ''format'';
          pattern = get property ''pattern'';
          minLength = get property ''minLength'';
          maxLength = get property ''maxLength''
      in (if defined format
          then bulletItem st (propertyDetails st ''Format'' @ '': '' @ jsToString format) (Some 0)
          else [])
       @ (if defined pattern
          then bulletItem st (propertyDetails st ''Pattern'' @ '': '' @ minMax st pattern) (Some 0)
          else [])
       @ (if defined minLength
          then bulletItem st (propertyDetails st ''Minimum Length''
                 @ minMax st (JStr ('': >= '' @ jsToString minLength))) (Some 0)
          else [])
       @ (if defined maxLength
          then bulletItem st (propertyDetails st ''Maximum Length''
                 @ minMax st (JStr ('': <= '' @ jsToString maxLength))) (Some 0)
          else []))"

text \<open>\<^verbatim>\<open>additionalProperties\<close> given as a schema.\<close>

definition additionalPropertiesDetails :: "style \<Rightarrow> jsval \<Rightarrow> jsval \<Rightarrow> error + string" where
  "additionalPropertiesDetails st property autoLink =
     (let additionalProperties = get property ''additionalProperties'' in
      if defined additionalProperties
         \<and> (case additionalProperties of JObj members \<Rightarrow> True | JArr xs \<Rightarrow> True | _ \<Rightarrow> False)
      then
        if defined (get additionalProperties ''anyOf'') then
          andThen (iterate (get additionalProperties ''anyOf'')) (\<lambda>propTypes.
          andThen (mapE (\<lambda>propType.
                     andThen (getPropertyType propType) (\<lambda>propTypeName.
                       Inr (if defined propTypeName
                            then bulletItem st (jsToString propTypeName) (Some 1) else [])))
                     propTypes) (\<lambda>lines.
            Inr (bulletItem st (propertyDetails st ''Property types allowed'' @ '':'') (Some 0)
                 @ concat lines)))
        else
          andThen (getPropertyType additionalProperties) (\<lambda>additionalPropertiesType.
            if defined additionalPropertiesType then
              let formattedType =
                    (if get additionalProperties ''type'' = JStr ''object''
                        \<and> defined (get property ''title'')
                     then linkType st (get property ''title'') (get property ''title'') autoLink
                     else JStr (typeValue st additionalPropertiesType))
              in Inr (bulletItem st (propertyDetails st ''Type of each property'' @ '': ''
                        @ jsToString formattedType) (Some 0))
            else Inr [])
      else Inr [])"

definition examplesDetails :: "style \<Rightarrow> jsval \<Rightarrow> jsval \<Rightarrow> error + string" where
  "examplesDetails st property type =
     (let examples = get property ''examples'' in
      if defined examples then
        andThen (iterate examples) (\<lambda>values.
          Inr (bulletItem st (propertyDetails st ''Examples'' @ '':'') None
               @ concat (map (\<lambda>example. bulletItem st (styleDefaultValue st example type) (Some 1))
                           values)))
      else Inr [])"

text \<open>The body of the loop of \<open>createPropertiesDetails\<close> for one property: its text and
  the property as the body leaves it.\<close>

definition createPropertiesDetails_property ::
  "style \<Rightarrow> string \<Rightarrow> typeGraph \<Rightarrow> jsval \<Rightarrow> jsval \<Rightarrow> string \<times> jsval
   \<Rightarrow> error + string \<times> jsval" where
  "createPropertiesDetails_property st headerMd knownTypes autoLink properties entry =
     (case entry of (name, property) \<Rightarrow>
        andThen (hasOwnProperty properties name) (\<lambda>own.
          if \<not> own then Inr ([], property)
          else
            andThen (getPropertySummary st property knownTypes autoLink) (\<lambda>summary.
            let type = s_type summary;
                detailedDescription =
                  autoLinkDescription st (get property ''gltf_detailedDescription'') knownTypes autoLink;
                eachElementInTheArrayMust = ''Each element in the array'' @ mustKeyword st;
                uniqueItems = get property ''uniqueItems'';
                webgl = get property ''gltf_webgl''
            in
            andThen (itemsDetails st property type) (\<lambda>(itemsMd, property').
            andThen (getEnumString st property' type 1) (\<lambda>enumString.
            andThen (additionalPropertiesDetails st property' autoLink) (\<lambda>additionalMd.
            andThen (examplesDetails st property' type) (\<lambda>examplesMd.
              Inr (headerMd @ '' '' @ name @ NL @ NL
                   @ (if defined detailedDescription
                      then jsToString detailedDescription @ NL @ NL
                      else if defined (s_description summary)
                      then jsToString (s_description summary) @ NL @ NL
                      else [])
                   @ bulletItem st (propertyDetails st ''Type'' @ '': ''
                       @ jsToString (s_formattedType summary)) (Some 0)
                   @ (if defined uniqueItems \<and> truthy uniqueItems
                      then bulletItem st (eachElementInTheArrayMust @ ''be unique.'') (Some 1)
                      else [])
                   @ itemsMd
                   @ bulletItem st (propertyDetails st ''Required'' @ '': '' @ s_required summary)
                       (Some 0)
                   @ minimumDetails st property'
                   @ maximumDetails st property'
                   @ scalarDetails st property'
                   @ (case enumString of
                        None \<Rightarrow> []
                      | Some text \<Rightarrow>
                          bulletItem st (propertyDetails st ''Allowed values'' @ '':'') (Some 0) @ text)
                   @ additionalMd
                   @ examplesMd
                   @ (if defined webgl
                      then bulletItem st (propertyGltfWebGL st ''Related WebGL functions'' @ '': ''
                             @ jsToString webgl) (Some 0)
                      else [])
                   @ NL,
                   property'))))))))"

text \<open>The properties object with the values the loop left in it.\<close>

fun withValues :: "jsval \<Rightarrow> jsval list \<Rightarrow> jsval" where
  "withValues (JObj members) vs = JObj (zip (map fst members) vs)"
| "withValues (JArr xs) vs = JArr vs"
| "withValues v vs = v"

text \<open>The result is the text and the schema after the pass. The parameter \<open>title\<close> is
  read into a local variable of the source that is never used.\<close>

definition createPropertiesDetails ::
  "style \<Rightarrow> jsval \<Rightarrow> jsval \<Rightarrow> int \<Rightarrow> typeGraph \<Rightarrow> jsval \<Rightarrow> error + string \<times> jsval" where
  "createPropertiesDetails st schema title headerLevel knownTypes autoLink =
     (let headerMd = getHeaderMarkdown st headerLevel in
      andThen (getE schema ''properties'') (\<lambda>properties.
      andThen (mapE (createPropertiesDetails_property st headerMd knownTypes autoLink properties)
                 (ownEntries properties)) (\<lambda>results.
        Inr (''## Properties'' @ NL @ concat (map fst results) @ NL,
             if ownEntries properties = [] then schema
             else setField schema ''properties'' (withValues properties (map snd results))))))"

text \<open>\<^verbatim>\<open>s.endsWith('/')\<close> and \<^verbatim>\<open>s.replace(/\\/g, '/')\<close>.\<close>

definition endsWithSlash :: "string \<Rightarrow> bool" where
  "endsWithSlash s = (s \<noteq> [] \<and> last s = CHR ''/'')"

definition replaceBackslashes :: "string \<Rightarrow> string" where
  "replaceBackslashes s = map (\<lambda>c. if c = CHR 0x5C then CHR ''/'' else c) s"

text \<open>The link to the schema file, after the statement on additional properties.\<close>

definition schemaReference ::
  "style \<Rightarrow> jsval \<Rightarrow> jsval \<Rightarrow> jsval \<Rightarrow> embedMode \<Rightarrow> error + string" where
  "schemaReference st schema fileName schemaRelativeBasePath embedMode =
     (if embedMode = ReferenceIncludeDocument then
        Inr (bulletItem st (bold st ''JSON schema'' @ '': ''
               @ getSchemaEmbedLink st fileName schema) None @ NL)
      else if defined schemaRelativeBasePath then
        (case schemaRelativeBasePath of
           JStr s \<Rightarrow>
             let path = (if \<not> endsWithSlash s then s @ ''/'' else s) in
             Inr (bulletItem st (bold st ''JSON schema'' @ '': ''
                    @ getLinkMarkdown st fileName (replaceBackslashes path @ jsToString fileName))
                    None @ NL)
         | _ \<Rightarrow> Inl TypeError)
      else Inr [])"

definition getSchemaMarkdown ::
  "style \<Rightarrow> jsval \<Rightarrow> jsval \<Rightarrow> int \<Rightarrow> jsval \<Rightarrow> jsval \<Rightarrow> typeGraph \<Rightarrow> jsval \<Rightarrow> embedMode
   \<Rightarrow> error + string \<times> jsval" where
  "getSchemaMarkdown st schema fileName headerLevel suppressWarnings schemaRelativeBasePath
     knownTypes autoLink embedMode =
     (if schema = JUndefined then Inr ([], schema)
      else
        let md1 = getSectionMarkdown st schema headerLevel suppressWarnings embedMode in
        if embedMode = WriteIncludeStatements then
          Inr (md1 @ embedJsonSchema st fileName schemaRelativeBasePath, schema)
        else
          andThen (getE schema ''description'') (\<lambda>description.
          let value = autoLinkDescription st description knownTypes autoLink;
              md2 = md1 @ (if defined value then jsToString value @ NL @ NL else []);
              extendedDescription = get schema ''gltf_sectionDescription'';
              md3 = md2 @ (if defined extendedDescription
                           then jsToString (autoLinkDescription st extendedDescription knownTypes autoLink)
                                @ NL @ NL
                           else []);
              schemaType = get schema ''type'';
              webgl = get schema ''gltf_webgl'';
              md4 = md3 @ (if defined webgl
                           then propertyGltfWebGL st ''Related WebGL functions'' @ '': ''
                                @ jsToString webgl @ NL @ NL
                           else [])
          in
          if schemaType = JStr ''object'' then
            andThen (createPropertiesSummary st schema knownTypes autoLink) (\<lambda>summaryMd.
            let additional = get schema ''additionalProperties'';
                md5 = md4 @ summaryMd
                      @ (if defined additional \<and> \<not> truthy additional
                         then ''Additional properties are not allowed.'' @ NL @ NL
                         else ''Additional properties are allowed.'' @ NL @ NL)
            in
            andThen (schemaReference st schema fileName schemaRelativeBasePath embedMode) (\<lambda>refMd.
            let title = defaultValue (get schema ''title'')
                          (JStr (if truthy suppressWarnings then []
                                 else ''WETZEL_WARNING: title not defined''))
            in
            andThen (createPropertiesDetails st schema title (headerLevel + 1) knownTypes autoLink)
              (\<lambda>(detailsMd, schema').
            andThen (createExamples st schema' headerLevel) (\<lambda>examplesMd.
              Inr (md5 @ refMd @ detailsMd @ examplesMd, schema')))))
          else Inr (md4, schema)))"

section \<open>The generation run\<close>

text \<open>The order of strings that \<^verbatim>\<open>Array.prototype.sort\<close> uses without a comparator:
  by character code, a proper prefix first.\<close>

fun strLess :: "string \<Rightarrow> string \<Rightarrow> bool" where
  "strLess [] [] = False"
| "strLess [] (y # ys) = True"
| "strLess (x # xs) [] = False"
| "strLess (x # xs) (y # ys) =
     ((of_char x :: nat) < of_char y \<or> (x = y \<and> strLess xs ys))"

fun insertString :: "string \<Rightarrow> string list \<Rightarrow> string list" where
  "insertString x [] = [x]"
| "insertString x (y # ys) = (if strLess y x then y # insertString x ys else x # y # ys)"

definition sortStrings :: "string list \<Rightarrow> string list" where
  "sortStrings xs = foldr insertString xs []"

fun insertEntry :: "string \<times> 'a \<Rightarrow> (string \<times> 'a) list \<Rightarrow> (string \<times> 'a) list" where
  "insertEntry x [] = [x]"
| "insertEntry x (y # ys) =
     (if strLess (fst y) (fst x) then y # insertEntry x ys else x # y # ys)"

text \<open>Modelled from the spec: \<^verbatim>\<open>lib/sortObject.js\<close> is not part of the verified file.
  The ordering step gives two views of the type graph, ascending (alphabetical by title)
  and descending (by title, the reverse).\<close>

definition sortObject :: "(string \<times> 'a) list \<Rightarrow> bool \<Rightarrow> (string \<times> 'a) list" where
  "sortObject obj ascending =
     (let sorted = foldr insertEntry obj [] in if ascending then sorted else rev sorted)"

text \<open>The Resolver's result, and the modules the run calls that are outside the verified
  file: the Resolvers for draft 3 and for the later drafts, the setters of the style
  module and the style they start from. \<open>callStack\<close> is the number of call frames the
  engine has left for \<open>getRecursiveTOC\<close>.\<close>

record resolved =
  r_schema :: jsval
  r_referencedSchemas :: typeGraph

datatype styleModeOption = Markdown | AsciiDoctor

record modules =
  schema3_resolve :: "jsval \<Rightarrow> jsval \<Rightarrow> jsval \<Rightarrow> jsval \<Rightarrow> jsval \<Rightarrow> resolved"
  schema4_resolve :: "jsval \<Rightarrow> jsval \<Rightarrow> jsval \<Rightarrow> jsval \<Rightarrow> jsval \<Rightarrow> resolved"
  setStyleMode :: "styleModeOption \<Rightarrow> style \<Rightarrow> style"
  setCheckmark :: "jsval \<Rightarrow> style \<Rightarrow> style"
  setMustKeyword :: "jsval \<Rightarrow> style \<Rightarrow> style"
  initialStyle :: style
  callStack :: nat

record options =
  o_schema :: jsval
  o_fileName :: jsval
  o_searchPath :: jsval
  o_styleMode :: jsval
  o_checkmark :: jsval
  o_mustKeyword :: jsval
  o_ignorableTypes :: jsval
  o_debug :: jsval
  o_suppressWarnings :: jsval
  o_writeTOC :: jsval
  o_headerLevel :: int
  o_schemaRelativeBasePath :: jsval
  o_autoLink :: jsval
  o_embedMode :: embedMode

text \<open>What a run that completes has done: the value it returned and the files it asked
  \<^verbatim>\<open>fs.writeFile\<close> to write, path and content, in order.\<close>

record run =
  returned :: string
  written :: "(string \<times> string) list"

text \<open>The style module after the three setters at the start of the run.\<close>

definition configuredStyle :: "modules \<Rightarrow> options \<Rightarrow> style" where
  "configuredStyle env options =
     (let mode = (if defined (o_styleMode options) \<and> o_styleMode options = JStr ''AsciiDoctor''
                  then AsciiDoctor else Markdown);
          st1 = setStyleMode env mode (initialStyle env);
          st2 = (if defined (o_checkmark options)
                 then setCheckmark env (o_checkmark options) st1 else st1)
      in if defined (o_mustKeyword options)
         then setMustKeyword env (o_mustKeyword options) st2 else st2)"

text \<open>The type graph as the object \<^verbatim>\<open>JSON.stringify\<close> receives: each entry with its
  schema, file name, parents and children.\<close>

definition entryValue :: "typeEntry \<Rightarrow> jsval" where
  "entryValue e =
     JObj [(''schema'', t_schema e), (''fileName'', t_fileName e),
           (''parents'', JArr (map JStr (t_parents e))),
           (''children'', JArr (map JStr (t_children e)))]"

definition graphValue :: "typeGraph \<Rightarrow> jsval" where
  "graphValue orderedTypes = JObj (map (\<lambda>(title, e). (title, entryValue e)) orderedTypes)"

text \<open>The body of the last loop: the document of one type and the file it goes to.\<close>

definition writeType ::
  "style \<Rightarrow> options \<Rightarrow> typeGraph \<Rightarrow> string \<times> typeEntry \<Rightarrow> error + (string \<times> string) list" where
  "writeType st options orderedTypesDescending entry =
     (case entry of (title, currentType) \<Rightarrow>
        andThen (getSchemaMarkdown st (t_schema currentType) (t_fileName currentType)
                   (o_headerLevel options + 1) (o_suppressWarnings options)
                   (o_schemaRelativeBasePath options) orderedTypesDescending
                   (o_autoLink options) (o_embedMode options)) (\<lambda>(md, schema').
          if md \<noteq> [] then
            andThen (getE schema' ''typeName'') (\<lambda>typeName.
            andThen (if defined typeName then Inr typeName
                     else (case get schema' ''title'' of
                             JStr t \<Rightarrow> Inr (JStr (toLowerCase t))
                           | _ \<Rightarrow> Inl TypeError)) (\<lambda>filename.
              Inr [(''output/'' @ jsToString filename @ ''.md'', md)]))
          else Inr []))"

definition generateMarkdown :: "modules \<Rightarrow> options \<Rightarrow> error + run" where
  "generateMarkdown env options =
     (let md0 = [];
          searchPath = defaultValue (o_searchPath options) (JArr [JStr []]);
          st = configuredStyle env options
      in
      andThen (getE (o_schema options) ''$schema'') (\<lambda>schemaRef.
        if \<not> defined schemaRef then Inl TypeError
        else
          let resolved =
                (if schemaRef = JStr ''http://json-schema.org/draft-03/schema''
                 then schema3_resolve env (o_schema options) (o_fileName options) searchPath
                        (o_ignorableTypes options) (o_debug options)
                 else schema4_resolve env (o_schema options) (o_fileName options) searchPath
                        (o_ignorableTypes options) (o_debug options));
              md1 = (if schemaRef \<noteq> JStr ''http://json-schema.org/draft-03/schema''
                        \<and> \<not> truthy (o_suppressWarnings options)
                        \<and> schemaRef \<noteq> JStr ''http://json-schema.org/draft-04/schema''
                        \<and> schemaRef \<noteq> JStr ''http://json-schema.org/draft-07/schema''
                        \<and> schemaRef \<noteq> JStr ''https://json-schema.org/draft/2020-12/schema''
                     then md0 @ ''> WETZEL_WARNING: Unrecognized JSON Schema.'' @ NL @ NL
                     else md0);
              schema = r_schema resolved;
              orderedTypes =
                map (\<lambda>(title, e). (title, e\<lparr>t_children := sortStrings (t_children e)\<rparr>))
                  (sortObject (r_referencedSchemas resolved) True);
              orderedTypesDescending = sortObject (r_referencedSchemas resolved) False
          in
          andThen (if truthy (o_writeTOC options)
                   then andThen (getTableOfContentsMarkdown st (callStack env) schema orderedTypes
                                   (o_headerLevel options))
                          (\<lambda>toc. Inr (md1 @ toc))
                   else Inr md1) (\<lambda>md2.
          let md3 = stringify (graphValue orderedTypes) in
          andThen (mapE (writeType st options orderedTypesDescending) orderedTypes) (\<lambda>files.
            Inr \<lparr> returned = [], written = (''output/text.md'', md3) # concat files \<rparr>))))"

section \<open>The table of contents as a list of bullets\<close>

text \<open>To state which bullets the table of contents has, independently of how a style
  draws them, the two functions are given a second form that returns the bullets
  themselves: a top-level bullet for a title (marked when it is the root), or a bullet
  for \<open>child\<close> nested under \<open>parent\<close> at a depth. \<open>renderItem\<close> is the text the source
  appends for a bullet; the lemma \<open>getTableOfContentsMarkdown_items\<close> below shows that
  the text of the source is the rendering of this list.\<close>

datatype tocItem =
    TopItem string jsval bool
  | NestedItem string string jsval nat

fun renderItem :: "style \<Rightarrow> tocItem \<Rightarrow> string" where
  "renderItem st (TopItem title typeName isRoot) =
     bulletItem st
       (getTOCLink st title (tocTypeName typeName title)
        @ (if isRoot then '' (root object)'' else []))
       None"
| "renderItem st (NestedItem parentTitle currentTitle typeName depth) =
     bulletItem st
       (getTOCLink st (replaceFirst (parentTitle @ '' '') [] currentTitle)
          (tocTypeName typeName currentTitle))
       (Some depth)"

fun recursiveItems :: "nat \<Rightarrow> typeGraph \<Rightarrow> string \<Rightarrow> nat \<Rightarrow> error + tocItem list"
  and recursiveItems_loop ::
    "nat \<Rightarrow> typeGraph \<Rightarrow> string \<Rightarrow> nat \<Rightarrow> string list \<Rightarrow> error + tocItem list"
where
  "recursiveItems 0 orderedTypes parentTitle depth = Inl RangeError"
| "recursiveItems (Suc stack) orderedTypes parentTitle depth =
     (case map_of orderedTypes parentTitle of
        None \<Rightarrow> Inl TypeError
      | Some parentType \<Rightarrow>
          recursiveItems_loop stack orderedTypes parentTitle depth (t_children parentType))"
| "recursiveItems_loop stack orderedTypes parentTitle depth [] = Inr []"
| "recursiveItems_loop stack orderedTypes parentTitle depth (currentTitle # rest) =
     (case map_of orderedTypes currentTitle of
        None \<Rightarrow> Inl TypeError
      | Some currentType \<Rightarrow>
          if length (t_parents currentType) = 1 then
            andThen (getE (t_schema currentType) ''typeName'') (\<lambda>typeName.
            andThen (recursiveItems stack orderedTypes currentTitle (depth + 1)) (\<lambda>sub.
            andThen (recursiveItems_loop stack orderedTypes parentTitle depth rest) (\<lambda>more.
              Inr (NestedItem parentTitle currentTitle typeName depth # sub @ more))))
          else recursiveItems_loop stack orderedTypes parentTitle depth rest)"

text \<open>The test of the source for a top-level bullet: the type is the root, or has more
  than one parent, or has the root among its parents.\<close>

definition listedAtTop :: "jsval \<Rightarrow> string \<times> typeEntry \<Rightarrow> bool" where
  "listedAtTop rootTitle entry =
     (case entry of (title, currentType) \<Rightarrow>
        JStr title = rootTitle \<or> length (t_parents currentType) > 1
        \<or> rootTitle \<in> set (map JStr (t_parents currentType)))"

fun tableOfContentsItems_loop ::
  "nat \<Rightarrow> jsval \<Rightarrow> typeGraph \<Rightarrow> typeGraph \<Rightarrow> error + tocItem list" where
  "tableOfContentsItems_loop stack schema orderedTypes [] = Inr []"
| "tableOfContentsItems_loop stack schema orderedTypes ((title, currentType) # rest) =
     andThen (getE schema ''title'') (\<lambda>rootTitle.
       if listedAtTop rootTitle (title, currentType)
       then
         andThen (getE (t_schema currentType) ''typeName'') (\<lambda>typeName.
         andThen (if JStr title \<noteq> rootTitle
                  then recursiveItems stack orderedTypes title 1 else Inr []) (\<lambda>sub.
         andThen (tableOfContentsItems_loop stack schema orderedTypes rest) (\<lambda>more.
           Inr (TopItem title typeName (JStr title = rootTitle) # sub @ more))))
       else tableOfContentsItems_loop stack schema orderedTypes rest)"

definition tableOfContentsItems :: "nat \<Rightarrow> jsval \<Rightarrow> typeGraph \<Rightarrow> error + tocItem list" where
  "tableOfContentsItems stack schema orderedTypes =
     tableOfContentsItems_loop stack schema orderedTypes orderedTypes"

fun isTop :: "tocItem \<Rightarrow> bool" where
  "isTop (TopItem title typeName isRoot) = True"
| "isTop (NestedItem parentTitle currentTitle typeName depth) = False"

fun itemTitle :: "tocItem \<Rightarrow> string" where
  "itemTitle (TopItem title typeName isRoot) = title"
| "itemTitle (NestedItem parentTitle currentTitle typeName depth) = currentTitle"

text \<open>\<open>nestedUnder items p c d\<close>: the list has a bullet for \<open>c\<close> nested under \<open>p\<close> at
  depth \<open>d\<close>.\<close>

definition nestedUnder :: "tocItem list \<Rightarrow> string \<Rightarrow> string \<Rightarrow> nat \<Rightarrow> bool" where
  "nestedUnder items p c d =
     list_ex (\<lambda>item. case item of
                       NestedItem parentTitle currentTitle typeName depth \<Rightarrow>
                         parentTitle = p \<and> currentTitle = c \<and> depth = d
                     | _ \<Rightarrow> False) items"

text \<open>\<open>singleParent g c\<close>: the graph has the type \<open>c\<close>, with exactly one parent.\<close>

definition singleParent :: "typeGraph \<Rightarrow> string \<Rightarrow> bool" where
  "singleParent orderedTypes c =
     (case map_of orderedTypes c of
        None \<Rightarrow> False
      | Some currentType \<Rightarrow> length (t_parents currentType) = 1)"

definition childrenOf :: "typeGraph \<Rightarrow> string \<Rightarrow> string list" where
  "childrenOf orderedTypes p =
     (case map_of orderedTypes p of None \<Rightarrow> [] | Some parentType \<Rightarrow> t_children parentType)"

section \<open>A style and a Resolver to run the generator on\<close>

text \<open>The theorems on the generator hold for every style. To run it on concrete schemas,
  \<open>sampleStyle\<close> draws Markdown in the manner of wetzel (headers of \<^verbatim>\<open>#\<close>, bullets
  indented by three spaces a level, values in backquotes, no automatic links), and
  \<open>sampleResolve\<close> is a Resolver for a schema without references: the graph holds the
  root type alone.\<close>

definition code :: "jsval \<Rightarrow> string" where
  "code v = ''`'' @ jsToString v @ ''`''"

definition sampleStyle :: style where
  "sampleStyle =
     \<lparr> getHeaderMarkdown = (\<lambda>level. replicate (nat level) (CHR ''#'')),
       getSectionMarkdown = (\<lambda>schema level suppressWarnings embedMode.
          replicate (nat level) (CHR ''#'') @ '' ''
          @ jsToString (defaultValue (get schema ''title'')
              (JStr (if truthy suppressWarnings then []
                     else ''WETZEL_WARNING: title not defined'')))
          @ NL @ NL),
       getTOCLink = (\<lambda>title typeName.
          ''['' @ title @ ''](#reference-'' @ jsToString typeName @ '')''),
       bulletItem = (\<lambda>item depth.
          replicate (3 * (case depth of None \<Rightarrow> 0 | Some d \<Rightarrow> d)) (CHR '' '')
          @ ''* '' @ item @ NL),
       embedJsonSchema = (\<lambda>fileName path.
          ''include::'' @ jsToString (defaultValue path (JStr [])) @ jsToString fileName @ NL),
       getSchemaEmbedLink = (\<lambda>fileName schema.
          ''['' @ jsToString fileName @ ''](#schema-reference)''),
       getLinkMarkdown = (\<lambda>fileName path. ''['' @ jsToString fileName @ '']('' @ path @ '')''),
       bold = (\<lambda>s. ''**'' @ s @ ''**''),
       propertyGltfWebGL = (\<lambda>s. ''**'' @ s @ ''**''),
       propertyDetails = (\<lambda>s. ''**'' @ s @ ''**''),
       propertyNameSummary = (\<lambda>s. ''**'' @ s @ ''**''),
       beginTable = (\<lambda>columns.
          ''|'' @ joinWith ''|'' columns @ ''|'' @ NL
          @ ''|'' @ joinWith ''|'' (map (\<lambda>c. ''---'') columns) @ ''|'' @ NL),
       addTableRow = (\<lambda>cells. ''|'' @ joinWith ''|'' (map jsToString cells) @ ''|'' @ NL),
       endTable = NL,
       styleDefaultValue = (\<lambda>v type. code v),
       minMax = code,
       typeValue = code,
       linkType = (\<lambda>s type autoLink. s),
       enumElement = (\<lambda>v type. code v),
       requiredIcon = '' &#10003; '',
       mustKeyword = '' **MUST** '' \<rparr>"

definition sampleResolve :: "jsval \<Rightarrow> jsval \<Rightarrow> jsval \<Rightarrow> jsval \<Rightarrow> jsval \<Rightarrow> resolved" where
  "sampleResolve schema fileName searchPath ignorableTypes debug =
     \<lparr> r_schema = schema,
       r_referencedSchemas =
         [(jsToString (get schema ''title''),
           \<lparr> t_schema = schema, t_fileName = fileName, t_parents = [], t_children = [] \<rparr>)] \<rparr>"

definition sampleModules :: modules where
  "sampleModules =
     \<lparr> schema3_resolve = sampleResolve,
       schema4_resolve = sampleResolve,
       setStyleMode = (\<lambda>mode st. st),
       setCheckmark = (\<lambda>checkmark st. st\<lparr>requiredIcon := jsToString checkmark\<rparr>),
       setMustKeyword = (\<lambda>keyword st. st\<lparr>mustKeyword := jsToString keyword\<rparr>),
       initialStyle = sampleStyle,
       callStack = 1000 \<rparr>"

text \<open>The options of a run on \<open>schema\<close> with everything else left out.\<close>

definition optionsFor :: "jsval \<Rightarrow> options" where
  "optionsFor schema =
     \<lparr> o_schema = schema, o_fileName = JStr ''root.schema.json'', o_searchPath = JUndefined,
       o_styleMode = JUndefined, o_checkmark = JUndefined, o_mustKeyword = JUndefined,
       o_ignorableTypes = JUndefined, o_debug = JUndefined, o_suppressWarnings = JUndefined,
       o_writeTOC = JUndefined, o_headerLevel = 1, o_schemaRelativeBasePath = JUndefined,
       o_autoLink = JUndefined, o_embedMode = FullExpansion \<rparr>"

text \<open>\<open>contains text part\<close>: \<open>part\<close> occurs in \<open>text\<close>.\<close>

fun contains :: "string \<Rightarrow> string \<Rightarrow> bool" where
  "contains [] part = (part = [])"
| "contains (c # cs) part = (take (length part) (c # cs) = part \<or> contains cs part)"

section \<open>Notions the theorems are stated with\<close>

text \<open>A property is marked required when its \<^verbatim>\<open>required\<close> field is defined and
  truthy: the test of \<open>getPropertySummary\<close>.\<close>

definition markedRequired :: "jsval \<Rightarrow> bool" where
  "markedRequired property =
     (defined (get property ''required'') \<and> truthy (get property ''required''))"

text \<open>The value an \<^verbatim>\<open>anyOf\<close> branch stands for: its \<^verbatim>\<open>const\<close> when defined, else
  the first element of its \<^verbatim>\<open>enum\<close> when that is a non-empty array; a branch with
  neither has none. \<open>anyOfBranchBullet\<close> is the bullet of a branch, empty when it has no
  value.\<close>

definition anyOfBranchValue :: "jsval \<Rightarrow> jsval option" where
  "anyOfBranchValue branch =
     (if defined (get branch ''const'') then Some (get branch ''const'')
      else case get branch ''enum'' of
             JArr (v # vs) \<Rightarrow> Some v
           | _ \<Rightarrow> None)"

definition anyOfBranchBullet :: "style \<Rightarrow> jsval \<Rightarrow> nat \<Rightarrow> jsval \<Rightarrow> string" where
  "anyOfBranchBullet st type depth branch =
     (case anyOfBranchValue branch of
        None \<Rightarrow> []
      | Some v \<Rightarrow>
          bulletItem st
            (enumElement st v type
             @ (if defined (get branch ''description'')
                then '' '' @ jsToString (get branch ''description'') else []))
            (Some depth))"

text \<open>The four fields of a schema that encode its numeric bounds.\<close>

definition boundKeys :: "string set" where
  "boundKeys = {''minimum'', ''exclusiveMinimum'', ''maximum'', ''exclusiveMaximum''}"

text \<open>Two objects that agree on every field outside the bound keys.\<close>

definition agreeOutsideBounds :: "jsval \<Rightarrow> jsval \<Rightarrow> bool" where
  "agreeOutsideBounds a b =
     ((\<exists>ma. a = JObj ma) \<and> (\<exists>mb. b = JObj mb) \<and> (\<forall>k. k \<notin> boundKeys \<longrightarrow> get a k = get b k))"

definition isNumber :: "jsval \<Rightarrow> bool" where
  "isNumber v = (case v of JNum n \<Rightarrow> True | _ \<Rightarrow> False)"

text \<open>What a render pass does to the schema of a type, said without the rendering: the
  items of each property are downgraded, and nothing else is touched.\<close>

definition downgradeProperty :: "jsval \<Rightarrow> jsval" where
  "downgradeProperty property =
     (if defined (get property ''items'')
      then setField property ''items'' (downgrade (get property ''items''))
      else property)"

definition downgradeSchema :: "jsval \<Rightarrow> jsval" where
  "downgradeSchema schema =
     (let properties = get schema ''properties'' in
      if ownEntries properties = [] then schema
      else setField schema ''properties''
             (withValues properties
                (map (\<lambda>entry. downgradeProperty (snd entry)) (ownEntries properties))))"

text \<open>A property whose items give a bound in the numeric encoding.\<close>

definition numericExclusiveItems :: "jsval \<Rightarrow> bool" where
  "numericExclusiveItems property =
     (isNumber (get (get property ''items'') ''exclusiveMinimum'')
      \<or> isNumber (get (get property ''items'') ''exclusiveMaximum''))"

text \<open>Invariants of the bullets below one entry of the table of contents, for the
  proofs: every bullet is nested, under a single-parent child of its parent, at depth
  \<open>d\<close> under \<open>p\<close> for a child in \<open>cs\<close> or deeper under a bullet one level higher
  (\<open>nestedOnly\<close>, and \<open>topOnly\<close> for the whole table); and every single-parent child of
  a nested bullet is nested under it (\<open>nestedAll\<close>).\<close>

definition nestedOnly :: "typeGraph \<Rightarrow> nat \<Rightarrow> string \<Rightarrow> string list \<Rightarrow> tocItem list \<Rightarrow> bool" where
  "nestedOnly g d p cs xs =
     ((\<forall>x\<in>set xs. \<not> isTop x)
      \<and> (\<forall>p' c d'. nestedUnder xs p' c d' \<longrightarrow>
            singleParent g c \<and> c \<in> set (childrenOf g p') \<and> d \<le> d'
            \<and> (d' = d \<longrightarrow> p' = p \<and> c \<in> set cs)
            \<and> (d < d' \<longrightarrow> (\<exists>q. nestedUnder xs q p' (d' - 1)))))"

definition nestedAll :: "typeGraph \<Rightarrow> tocItem list \<Rightarrow> bool" where
  "nestedAll g xs =
     (\<forall>p c d. nestedUnder xs p c d \<longrightarrow>
        (\<forall>c'\<in>set (childrenOf g c). singleParent g c' \<longrightarrow> nestedUnder xs c c' (Suc d)))"

definition topOnly :: "typeGraph \<Rightarrow> jsval \<Rightarrow> string list \<Rightarrow> tocItem list \<Rightarrow> bool" where
  "topOnly g root ts xs =
     (\<forall>p c d. nestedUnder xs p c d \<longrightarrow>
        singleParent g c \<and> c \<in> set (childrenOf g p) \<and> 1 \<le> d
        \<and> (d = 1 \<longrightarrow> JStr p \<noteq> root \<and> p \<in> set ts)
        \<and> (1 < d \<longrightarrow> (\<exists>q. nestedUnder xs q p (d - 1))))"

section \<open>Inputs of the examples\<close>

text \<open>A draft-04 schema of one object type with one integer property.\<close>

definition rootOnly :: jsval where
  "rootOnly =
     JObj [(''$schema'', JStr ''http://json-schema.org/draft-04/schema''),
           (''title'', JStr ''Root''),
           (''type'', JStr ''object''),
           (''properties'',
              JObj [(''bar'', JObj [(''type'', JStr ''integer''), (''minimum'', JNum 0)])])]"

text \<open>The same schema without its \<^verbatim>\<open>$schema\<close> field.\<close>

definition rootWithoutDialect :: jsval where
  "rootWithoutDialect =
     JObj [(''title'', JStr ''Root''),
           (''type'', JStr ''object''),
           (''properties'',
              JObj [(''bar'', JObj [(''type'', JStr ''integer''), (''minimum'', JNum 0)])])]"

text \<open>The enumeration of the specification: a branch that carries the type, then two
  constants with their descriptions.\<close>

definition zeroOne :: jsval where
  "zeroOne =
     JObj [(''anyOf'',
            JArr [JObj [(''type'', JStr ''integer'')],
                  JObj [(''const'', JNum 0), (''description'', JStr ''Zero'')],
                  JObj [(''const'', JNum 1), (''description'', JStr ''One'')]])]"

text \<open>An object type whose property \<^verbatim>\<open>xs\<close> is an array of numbers greater than 5, in
  the numeric encoding, and the same schema after a render pass.\<close>

definition numbersAbove :: jsval where
  "numbersAbove =
     JObj [(''title'', JStr ''Numbers''),
           (''type'', JStr ''object''),
           (''properties'',
              JObj [(''xs'',
                     JObj [(''type'', JStr ''array''),
                           (''items'', JObj [(''type'', JStr ''number''),
                                             (''exclusiveMinimum'', JNum 5)])])])]"

definition numbersAboveRendered :: jsval where
  "numbersAboveRendered =
     JObj [(''title'', JStr ''Numbers''),
           (''type'', JStr ''object''),
           (''properties'',
              JObj [(''xs'',
                     JObj [(''type'', JStr ''array''),
                           (''items'', JObj [(''type'', JStr ''number''),
                                             (''exclusiveMinimum'', JBool True),
                                             (''minimum'', JNum 5)])])])]"


text \<open>Type graphs for the table of contents: a root with one child; the same with a
  grandchild; and a root with a child \<open>A\<close>, its single-parent child \<open>A B\<close>, and a type
  shared by \<open>A\<close> and the root.\<close>

definition rootSchema :: jsval where
  "rootSchema = JObj [(''title'', JStr ''Root'')]"

definition rootAndChild :: typeGraph where
  "rootAndChild =
     [(''Root'', \<lparr> t_schema = JObj [(''title'', JStr ''Root'')], t_fileName = JStr ''root.schema.json'',
                   t_parents = [], t_children = [''Root Child''] \<rparr>),
      (''Root Child'', \<lparr> t_schema = JObj [(''title'', JStr ''Root Child'')],
                         t_fileName = JStr ''child.schema.json'',
                         t_parents = [''Root''], t_children = [] \<rparr>)]"

definition rootChildLeaf :: typeGraph where
  "rootChildLeaf =
     [(''Root'', \<lparr> t_schema = JObj [(''title'', JStr ''Root'')], t_fileName = JStr ''root.schema.json'',
                   t_parents = [], t_children = [''Root Child''] \<rparr>),
      (''Root Child'', \<lparr> t_schema = JObj [(''title'', JStr ''Root Child'')],
                         t_fileName = JStr ''child.schema.json'',
                         t_parents = [''Root''], t_children = [''Root Child Leaf''] \<rparr>),
      (''Root Child Leaf'', \<lparr> t_schema = JObj [(''title'', JStr ''Root Child Leaf'')],
                         t_fileName = JStr ''leaf.schema.json'',
                         t_parents = [''Root Child''], t_children = [] \<rparr>)]"

definition familyGraph :: typeGraph where
  "familyGraph =
     [(''A'', \<lparr> t_schema = JObj [(''title'', JStr ''A'')], t_fileName = JStr ''a.schema.json'',
                t_parents = [''Root''], t_children = [''A B'', ''Shared''] \<rparr>),
      (''A B'', \<lparr> t_schema = JObj [(''title'', JStr ''A B'')], t_fileName = JStr ''a.b.schema.json'',
                  t_parents = [''A''], t_children = [] \<rparr>),
      (''Root'', \<lparr> t_schema = JObj [(''title'', JStr ''Root'')], t_fileName = JStr ''root.schema.json'',
                   t_parents = [], t_children = [''A'', ''Shared''] \<rparr>),
      (''Shared'', \<lparr> t_schema = JObj [(''title'', JStr ''Shared'')], t_fileName = JStr ''shared.schema.json'',
                     t_parents = [''A'', ''Root''], t_children = [] \<rparr>)]"

section \<open>Theorems on the generation run\<close>

lemma andThen_Inr_iff: "andThen m f = Inr y \<longleftrightarrow> (\<exists>x. m = Inr x \<and> f x = Inr y)"
  by (cases m) auto

lemma andThen_Inl_iff:
  "andThen m f = Inl e \<longleftrightarrow> (m = Inl e \<or> (\<exists>x. m = Inr x \<and> f x = Inl e))"
  by (cases m) auto

text \<open>
  Claim C10. Whenever \<open>generateMarkdown\<close> completes, the value it returns is the empty
  string: the documents leave the run through the file writes only.
\<close>

theorem generateMarkdown_returns_empty:
  "generateMarkdown env options = Inr r \<Longrightarrow> returned r = []"
  by (auto simp: generateMarkdown_def Let_def andThen_Inr_iff split: if_splits)

theorem generateMarkdown_returns_empty_witness:
  "\<not> isl (generateMarkdown sampleModules (optionsFor rootOnly))
   \<and> returned (projr (generateMarkdown sampleModules (optionsFor rootOnly))) = []
   \<and> map fst (written (projr (generateMarkdown sampleModules (optionsFor rootOnly))))
       = [''output/text.md'', ''output/root.md'']"
proof -
  have completes: "\<not> isl (generateMarkdown sampleModules (optionsFor rootOnly))"
    by code_simp
  then have "generateMarkdown sampleModules (optionsFor rootOnly)
             = Inr (projr (generateMarkdown sampleModules (optionsFor rootOnly)))"
    by simp
  then have "returned (projr (generateMarkdown sampleModules (optionsFor rootOnly))) = []"
    by (rule generateMarkdown_returns_empty)
  moreover have "map fst (written (projr (generateMarkdown sampleModules (optionsFor rootOnly))))
                 = [''output/text.md'', ''output/root.md'']"
    by code_simp
  ultimately show ?thesis using completes by simp
qed

text \<open>
  Claim C2, at the input that fails. The root schema \<open>rootWithoutDialect\<close> has no
  \<^verbatim>\<open>$schema\<close> field. No Resolver is called, \<^verbatim>\<open>resolved\<close> stays null, and the read
  \<^verbatim>\<open>resolved.schema\<close> throws: the run ends in a \<open>TypeError\<close> whatever the Resolvers
  and the style are, where the claim says that processing proceeds on the path of
  draft 4.
\<close>

theorem generateMarkdown_without_dialect_throws:
  "generateMarkdown env (optionsFor rootWithoutDialect) = Inl TypeError"
  by (simp add: generateMarkdown_def optionsFor_def rootWithoutDialect_def getE_def defined_def)

text \<open>
  Claim C1, at the input that fails. With \<^verbatim>\<open>writeTOC\<close> set, the table of contents of
  the run on \<open>rootOnly\<close> is computed, and then \<^verbatim>\<open>md\<close> is overwritten by the JSON text
  of the type graph before anything is written: the run returns the empty string, it
  writes \<^verbatim>\<open>output/text.md\<close> and \<^verbatim>\<open>output/root.md\<close>, neither of them contains the
  table of contents, and the result is the one of the run without \<^verbatim>\<open>writeTOC\<close>.
\<close>

theorem generateMarkdown_discards_table_of_contents:
  "getTableOfContentsMarkdown sampleStyle 1000 rootOnly
     [(''Root'', \<lparr> t_schema = rootOnly, t_fileName = JStr ''root.schema.json'',
                   t_parents = [], t_children = [] \<rparr>)] 1
   = Inr (''# Objects'' @ NL @ ''* [Root](#reference-root) (root object)'' @ NL)
   \<and> (case generateMarkdown sampleModules ((optionsFor rootOnly)\<lparr>o_writeTOC := JBool True\<rparr>) of
        Inl e \<Rightarrow> False
      | Inr r \<Rightarrow>
          returned r = []
          \<and> map fst (written r) = [''output/text.md'', ''output/root.md'']
          \<and> list_all (\<lambda>file. \<not> contains (snd file) ''# Objects'') (written r))
   \<and> generateMarkdown sampleModules ((optionsFor rootOnly)\<lparr>o_writeTOC := JBool True\<rparr>)
     = generateMarkdown sampleModules (optionsFor rootOnly)"
  by code_simp

section \<open>Theorems on property descriptors\<close>

lemma arrayBaseType_total: "\<exists>base. arrayBaseType property type = Inr base"
  by (auto simp: arrayBaseType_def Let_def getPropertyType_def getE_def defined_def)

text \<open>
  Claim C8. The bracketed suffix of an array-typed property, for \<^verbatim>\<open>minItems\<close> and
  \<^verbatim>\<open>maxItems\<close> that are safe integers (as every count of items is): \<open>[n]\<close> when
  both are the same number \<open>n\<close>, \<open>[lo-hi]\<close> when both are present and differ,
  \<open>[lo-*]\<close> with \<^verbatim>\<open>minItems\<close> alone, \<open>[*-hi]\<close> with \<^verbatim>\<open>maxItems\<close> alone, \<open>[]\<close>
  with neither, the numbers in decimal digits. For a property whose type is
  \<^verbatim>\<open>array\<close> the descriptor's type is the base type followed by this suffix, and the
  formatted type is the style's rendering of it.
\<close>

theorem arrayInfo_cardinality:
  "(safeInteger n \<and> get property ''minItems'' = JNum n \<and> get property ''maxItems'' = JNum n
      \<longrightarrow> arrayInfo property = ''['' @ showInt n @ '']'')
   \<and> (safeInteger lo \<and> safeInteger hi
      \<and> get property ''minItems'' = JNum lo \<and> get property ''maxItems'' = JNum hi \<and> lo \<noteq> hi
      \<longrightarrow> arrayInfo property = ''['' @ showInt lo @ ''-'' @ showInt hi @ '']'')
   \<and> (safeInteger lo
      \<and> get property ''minItems'' = JNum lo \<and> \<not> defined (get property ''maxItems'')
      \<longrightarrow> arrayInfo property = ''['' @ showInt lo @ ''-*]'')
   \<and> (safeInteger hi
      \<and> \<not> defined (get property ''minItems'') \<and> get property ''maxItems'' = JNum hi
      \<longrightarrow> arrayInfo property = ''[*-'' @ showInt hi @ '']'')
   \<and> (\<not> defined (get property ''minItems'') \<and> \<not> defined (get property ''maxItems'')
      \<longrightarrow> arrayInfo property = ''[]'')
   \<and> (getPropertyType property = Inr (JStr ''array'')
      \<longrightarrow> (\<exists>base summary.
             arrayBaseType property (JStr ''array'') = Inr base
             \<and> getPropertySummary st property knownTypes autoLink = Inr summary
             \<and> s_type summary = JStr (jsToString base @ arrayInfo property)
             \<and> s_formattedType summary = JStr (typeValue st (s_type summary))))"
proof -
  have suffix:
    "(safeInteger n \<and> get property ''minItems'' = JNum n \<and> get property ''maxItems'' = JNum n
        \<longrightarrow> arrayInfo property = ''['' @ showInt n @ '']'')
     \<and> (safeInteger lo \<and> safeInteger hi
      \<and> get property ''minItems'' = JNum lo \<and> get property ''maxItems'' = JNum hi \<and> lo \<noteq> hi
        \<longrightarrow> arrayInfo property = ''['' @ showInt lo @ ''-'' @ showInt hi @ '']'')
     \<and> (safeInteger lo
      \<and> get property ''minItems'' = JNum lo \<and> \<not> defined (get property ''maxItems'')
        \<longrightarrow> arrayInfo property = ''['' @ showInt lo @ ''-*]'')
     \<and> (safeInteger hi
      \<and> \<not> defined (get property ''minItems'') \<and> get property ''maxItems'' = JNum hi
        \<longrightarrow> arrayInfo property = ''[*-'' @ showInt hi @ '']'')
     \<and> (\<not> defined (get property ''minItems'') \<and> \<not> defined (get property ''maxItems'')
        \<longrightarrow> arrayInfo property = ''[]'')"
    by (auto simp: arrayInfo_def insideBrackets_def Let_def defined_def)
  have descriptor:
    "\<exists>base summary.
       arrayBaseType property (JStr ''array'') = Inr base
       \<and> getPropertySummary st property knownTypes autoLink = Inr summary
       \<and> s_type summary = JStr (jsToString base @ arrayInfo property)
       \<and> s_formattedType summary = JStr (typeValue st (s_type summary))"
    if "getPropertyType property = Inr (JStr ''array'')"
    using that arrayBaseType_total[of property "JStr ''array''"]
    by (auto simp: getPropertySummary_def defaultValue_def defined_def Let_def)
  from suffix descriptor show ?thesis by blast
qed

theorem arrayInfo_cardinality_witness:
  "arrayInfo (JObj [(''type'', JStr ''array''), (''minItems'', JNum 3), (''maxItems'', JNum 3)])
     = ''[3]''
   \<and> arrayInfo (JObj [(''type'', JStr ''array''), (''minItems'', JNum 1), (''maxItems'', JNum 4)])
     = ''[1-4]''
   \<and> arrayInfo (JObj [(''type'', JStr ''array''), (''minItems'', JNum 2)]) = ''[2-*]''
   \<and> arrayInfo (JObj [(''type'', JStr ''array''), (''maxItems'', JNum 5)]) = ''[*-5]''
   \<and> arrayInfo (JObj [(''type'', JStr ''array'')]) = ''[]''
   \<and> (\<exists>summary.
         getPropertySummary sampleStyle
           (JObj [(''type'', JStr ''array''), (''minItems'', JNum 2),
                  (''items'', JObj [(''type'', JStr ''number'')])]) [] JUndefined = Inr summary
         \<and> s_type summary = JStr ''number[2-*]''
         \<and> s_formattedType summary = JStr ''`number[2-*]`'')"
proof -
  let ?exact = "JObj [(''type'', JStr ''array''), (''minItems'', JNum 3), (''maxItems'', JNum 3)]"
  let ?range = "JObj [(''type'', JStr ''array''), (''minItems'', JNum 1), (''maxItems'', JNum 4)]"
  let ?least = "JObj [(''type'', JStr ''array''), (''minItems'', JNum 2)]"
  let ?most = "JObj [(''type'', JStr ''array''), (''maxItems'', JNum 5)]"
  let ?free = "JObj [(''type'', JStr ''array'')]"
  let ?numbers = "JObj [(''type'', JStr ''array''), (''minItems'', JNum 2),
                        (''items'', JObj [(''type'', JStr ''number'')])]"
  have digits: "showInt 1 = ''1''" "showInt 2 = ''2''" "showInt 3 = ''3''"
    "showInt 4 = ''4''" "showInt 5 = ''5''"
    by code_simp+
  have safe: "safeInteger 1" "safeInteger 2" "safeInteger 3" "safeInteger 4" "safeInteger 5"
    by (simp_all add: safeInteger_def)
  have "arrayInfo ?exact = ''['' @ showInt 3 @ '']''"
    using arrayInfo_cardinality[of 3 ?exact] safe by simp
  moreover have "arrayInfo ?range = ''['' @ showInt 1 @ ''-'' @ showInt 4 @ '']''"
    using arrayInfo_cardinality[of _ ?range 1 4] safe by simp
  moreover have "arrayInfo ?least = ''['' @ showInt 2 @ ''-*]''"
    using arrayInfo_cardinality[of _ ?least 2] safe by (simp add: defined_def)
  moreover have "arrayInfo ?most = ''[*-'' @ showInt 5 @ '']''"
    using arrayInfo_cardinality[of _ ?most _ 5] safe by (simp add: defined_def)
  moreover have "arrayInfo ?free = ''[]''"
    using arrayInfo_cardinality[of _ ?free] by (simp add: defined_def)
  moreover have "\<exists>summary.
         getPropertySummary sampleStyle ?numbers [] JUndefined = Inr summary
         \<and> s_type summary = JStr ''number[2-*]''
         \<and> s_formattedType summary = JStr ''`number[2-*]`''"
  proof -
    have array: "getPropertyType ?numbers = Inr (JStr ''array'')"
      by (simp add: getPropertyType_def getE_def defined_def)
    have base: "arrayBaseType ?numbers (JStr ''array'') = Inr (JStr ''number'')"
      by (simp add: arrayBaseType_def defined_def)
    have suffix: "arrayInfo ?numbers = ''[2-*]''"
      by (simp add: arrayInfo_def insideBrackets_def defined_def digits)
    from arrayInfo_cardinality[of _ ?numbers _ _ sampleStyle "[]" JUndefined] array
    obtain b summary where
      "arrayBaseType ?numbers (JStr ''array'') = Inr b"
      "getPropertySummary sampleStyle ?numbers [] JUndefined = Inr summary"
      "s_type summary = JStr (jsToString b @ arrayInfo ?numbers)"
      "s_formattedType summary = JStr (typeValue sampleStyle (s_type summary))"
      by blast
    with base suffix show ?thesis
      by (simp add: sampleStyle_def code_def)
  qed
  ultimately show ?thesis by (simp add: digits)
qed

lemma getPropertySummary_required:
  assumes "getPropertySummary st property knownTypes autoLink = Inr summary"
  shows "s_required summary =
           (if markedRequired property then requiredIcon st @ ''Yes''
            else if defined (get property ''default'')
              then ''No, default: ''
                   @ styleDefaultValue st (defaultString (get property ''default'')) (s_type summary)
            else ''No'')"
  using assms
  by (auto simp: getPropertySummary_def markedRequired_def Let_def andThen_Inr_iff
           split: if_splits)

text \<open>
  Claim C3, as the code has it. The \<open>required\<close> field of the descriptor is the style's
  checkmark marker followed by \<open>Yes\<close> when the property is marked required; else
  \<open>No, default: \<close> followed by the styled default when a default is defined, an array
  default written as its comma-joined elements between brackets and an object default as
  its JSON text; else \<open>No\<close>. The required column of the summary table holds this field
  unchanged: the test for a bare \<open>Yes\<close> adds the marker only where it is empty.
\<close>

theorem required_descriptor:
  "getPropertySummary st property knownTypes autoLink = Inr summary \<Longrightarrow>
     s_required summary =
       (if markedRequired property then requiredIcon st @ ''Yes''
        else if defined (get property ''default'')
          then ''No, default: ''
               @ styleDefaultValue st (defaultString (get property ''default'')) (s_type summary)
        else ''No'')
     \<and> defaultString (JArr xs) = JStr (''['' @ jsToString (JArr xs) @ '']'')
     \<and> defaultString (JObj members) = JStr (stringify (JObj members))
     \<and> (hasOwnProperty properties name = Inr True \<longrightarrow>
          createPropertiesSummary_row st knownTypes autoLink properties (name, property)
          = Inr (addTableRow st
                   [JStr (propertyNameSummary st name), s_formattedType summary,
                    defaultValue (s_description summary) (JStr []),
                    JStr (s_required summary)]))"
proof -
  assume summary: "getPropertySummary st property knownTypes autoLink = Inr summary"
  note required = getPropertySummary_required[OF summary]
  have "(if s_required summary = ''Yes'' then requiredIcon st else []) @ s_required summary
        = s_required summary"
    unfolding required by auto
  then show ?thesis using summary required
    by (simp add: createPropertiesSummary_row_def defaultString_def)
qed

theorem required_descriptor_witness:
  "(\<exists>summary.
      getPropertySummary sampleStyle
        (JObj [(''type'', JStr ''integer''), (''required'', JBool True)]) [] JUndefined = Inr summary
      \<and> s_required summary = '' &#10003; Yes''
      \<and> createPropertiesSummary_row sampleStyle [] JUndefined
           (JObj [(''count'', JObj [(''type'', JStr ''integer''), (''required'', JBool True)])])
           (''count'', JObj [(''type'', JStr ''integer''), (''required'', JBool True)])
         = Inr (''|**count**|`integer`|| &#10003; Yes|'' @ NL))
   \<and> (\<exists>summary.
      getPropertySummary sampleStyle
        (JObj [(''type'', JStr ''integer''), (''required'', JBool False), (''default'', JNum 2)])
        [] JUndefined = Inr summary
      \<and> s_required summary = ''No, default: `2`'')
   \<and> (\<exists>summary.
      getPropertySummary sampleStyle (JObj [(''type'', JStr ''integer'')]) [] JUndefined
        = Inr summary
      \<and> s_required summary = ''No'')"
proof -
  let ?yes = "JObj [(''type'', JStr ''integer''), (''required'', JBool True)]"
  let ?two = "JObj [(''type'', JStr ''integer''), (''required'', JBool False), (''default'', JNum 2)]"
  let ?no = "JObj [(''type'', JStr ''integer'')]"
  let ?properties = "JObj [(''count'', ?yes)]"
  have yes: "\<not> isl (getPropertySummary sampleStyle ?yes [] JUndefined)"
    and two: "\<not> isl (getPropertySummary sampleStyle ?two [] JUndefined)"
    and no: "\<not> isl (getPropertySummary sampleStyle ?no [] JUndefined)"
    by code_simp+
  from yes obtain s1 where s1: "getPropertySummary sampleStyle ?yes [] JUndefined = Inr s1"
    by (cases "getPropertySummary sampleStyle ?yes [] JUndefined") auto
  from two obtain s2 where s2: "getPropertySummary sampleStyle ?two [] JUndefined = Inr s2"
    by (cases "getPropertySummary sampleStyle ?two [] JUndefined") auto
  from no obtain s3 where s3: "getPropertySummary sampleStyle ?no [] JUndefined = Inr s3"
    by (cases "getPropertySummary sampleStyle ?no [] JUndefined") auto
  have own: "hasOwnProperty ?properties ''count'' = Inr True"
    by simp
  have digit: "showInt 2 = ''2''"
    by code_simp
  have t1: "s_formattedType s1 = JStr ''`integer`''" "s_description s1 = JUndefined"
    using s1 by (auto simp: getPropertySummary_def getPropertyType_def getE_def defined_def
        defaultValue_def autoLinkDescription_def sampleStyle_def code_def)
  have "s_required s1 = '' &#10003; Yes''"
    using required_descriptor[OF s1, of "[]" "[]" ?properties "''count''"]
    by (simp add: markedRequired_def defined_def sampleStyle_def)
  moreover have "createPropertiesSummary_row sampleStyle [] JUndefined ?properties (''count'', ?yes)
         = Inr (''|**count**|`integer`|| &#10003; Yes|'' @ NL)"
    using required_descriptor[OF s1, of "[]" "[]" ?properties "''count''"] own t1
    by (simp add: markedRequired_def defined_def defaultValue_def sampleStyle_def)
  moreover have "s_required s2 = ''No, default: `2`''"
    using required_descriptor[OF s2, of "[]" "[]" ?properties "''count''"]
    by (simp add: markedRequired_def defined_def defaultString_def sampleStyle_def code_def digit)
  moreover have "s_required s3 = ''No''"
    using required_descriptor[OF s3, of "[]" "[]" ?properties "''count''"]
    by (simp add: markedRequired_def defined_def)
  ultimately show ?thesis using s1 s2 s3 by simp
qed

text \<open>
  Claim C3 as stated fails where the style's marker is not empty: for a property marked
  required the descriptor's \<open>required\<close> field is the marker followed by \<open>Yes\<close>, not the
  string \<open>Yes\<close>.
\<close>

theorem required_descriptor_counterexample:
  "map_sum id s_required
     (getPropertySummary sampleStyle
        (JObj [(''type'', JStr ''integer''), (''required'', JBool True)]) [] JUndefined)
   = Inr '' &#10003; Yes''
   \<and> map_sum id s_required
     (getPropertySummary sampleStyle
        (JObj [(''type'', JStr ''integer''), (''required'', JBool True)]) [] JUndefined)
   \<noteq> Inr ''Yes''"
  by code_simp

section \<open>Theorems on enumerations\<close>

lemma getAnyOfEnumString_loop_bullets:
  "list_all defined branches \<Longrightarrow>
   getAnyOfEnumString_loop st type depth branches
   = Inr (concat (map (anyOfBranchBullet st type depth) branches))"
proof (induction branches)
  case Nil
  then show ?case by simp
next
  case (Cons branch branches)
  then show ?case
    by (auto simp: getE_def anyOfBranchBullet_def anyOfBranchValue_def enumLine_def Let_def
             split: jsval.splits list.splits)
qed

text \<open>
  Claim C9, as the code has it. For the schema \<open>zeroOne\<close> the enumeration is two bullets,
  for 0 with \<open>Zero\<close> and for 1 with \<open>One\<close>, in the order of declaration. In general, for
  an \<^verbatim>\<open>anyOf\<close> array without null entries, the result is the bullets of the branches
  in order: a branch is skipped exactly when its \<^verbatim>\<open>const\<close> is undefined or null and its
  \<^verbatim>\<open>enum\<close> is not a non-empty array; a branch without \<^verbatim>\<open>const\<close> and with a
  non-empty \<^verbatim>\<open>enum\<close> array contributes the first element, whatever the length of the
  array; the description of a branch, when defined, follows its value after a space.
\<close>

theorem anyOf_enum_bullets:
  "(get schema ''anyOf'' = JArr branches \<and> list_all defined branches
      \<longrightarrow> getAnyOfEnumString st schema type depth
          = Inr (Some (concat (map (anyOfBranchBullet st type depth) branches))))
   \<and> getAnyOfEnumString st zeroOne type depth
     = Inr (Some (bulletItem st (enumElement st (JNum 0) type @ '' Zero'') (Some depth)
                  @ bulletItem st (enumElement st (JNum 1) type @ '' One'') (Some depth)))
   \<and> (anyOfBranchValue branch = None
        \<longleftrightarrow> \<not> defined (get branch ''const'')
            \<and> (\<forall>v vs. get branch ''enum'' \<noteq> JArr (v # vs)))
   \<and> (\<not> defined (get branch ''const'') \<and> get branch ''enum'' = JArr (v # vs)
        \<longrightarrow> anyOfBranchValue branch = Some v)"
proof -
  have general: "getAnyOfEnumString st s type depth
          = Inr (Some (concat (map (anyOfBranchBullet st type depth) bs)))"
    if "get s ''anyOf'' = JArr bs" "list_all defined bs" for s bs
  proof -
    from that(1) have "defined s" by (cases s) (auto simp: defined_def)
    with that show ?thesis
      by (simp add: getAnyOfEnumString_def getE_def defined_def getAnyOfEnumString_loop_bullets)
  qed
  have example: "getAnyOfEnumString st zeroOne type depth
     = Inr (Some (bulletItem st (enumElement st (JNum 0) type @ '' Zero'') (Some depth)
                  @ bulletItem st (enumElement st (JNum 1) type @ '' One'') (Some depth)))"
    by (simp add: zeroOne_def getAnyOfEnumString_def getE_def defined_def enumLine_def)
  have skipped: "anyOfBranchValue branch = None
        \<longleftrightarrow> \<not> defined (get branch ''const'')
            \<and> (\<forall>v vs. get branch ''enum'' \<noteq> JArr (v # vs))"
    by (auto simp: anyOfBranchValue_def split: jsval.splits list.splits)
  have first: "\<not> defined (get branch ''const'') \<and> get branch ''enum'' = JArr (v # vs)
        \<longrightarrow> anyOfBranchValue branch = Some v"
    by (simp add: anyOfBranchValue_def)
  from general example skipped first show ?thesis by blast
qed

theorem anyOf_enum_bullets_witness:
  "getAnyOfEnumString sampleStyle zeroOne (JStr ''integer'') 1
     = Inr (Some (''   * `0` Zero'' @ NL @ ''   * `1` One'' @ NL))
   \<and> anyOfBranchValue (JObj [(''type'', JStr ''integer'')]) = None
   \<and> anyOfBranchValue (JObj [(''enum'', JArr [JNum 1, JNum 2])]) = Some (JNum 1)"
proof -
  let ?branches = "[JObj [(''type'', JStr ''integer'')],
                    JObj [(''const'', JNum 0), (''description'', JStr ''Zero'')],
                    JObj [(''const'', JNum 1), (''description'', JStr ''One'')]]"
  have "get zeroOne ''anyOf'' = JArr ?branches \<and> list_all defined ?branches"
    by (simp add: zeroOne_def defined_def)
  with anyOf_enum_bullets[of zeroOne ?branches sampleStyle "JStr ''integer''" 1]
  have "getAnyOfEnumString sampleStyle zeroOne (JStr ''integer'') 1
     = Inr (Some (concat (map (anyOfBranchBullet sampleStyle (JStr ''integer'') 1) ?branches)))"
    by blast
  also have "concat (map (anyOfBranchBullet sampleStyle (JStr ''integer'') 1) ?branches)
             = ''   * `0` Zero'' @ NL @ ''   * `1` One'' @ NL"
    by code_simp
  finally have bullets: "getAnyOfEnumString sampleStyle zeroOne (JStr ''integer'') 1
     = Inr (Some (''   * `0` Zero'' @ NL @ ''   * `1` One'' @ NL))" .
  have "anyOfBranchValue (JObj [(''type'', JStr ''integer'')]) = None"
    using anyOf_enum_bullets[of _ _ _ _ _ "JObj [(''type'', JStr ''integer'')]"]
    by (simp add: defined_def)
  moreover have "anyOfBranchValue (JObj [(''enum'', JArr [JNum 1, JNum 2])]) = Some (JNum 1)"
    using anyOf_enum_bullets[of _ _ _ _ _ "JObj [(''enum'', JArr [JNum 1, JNum 2])]" "JNum 1" "[JNum 2]"]
    by (simp add: defined_def)
  ultimately show ?thesis using bullets by simp
qed

text \<open>
  Claim C9 as stated fails on a branch that has no \<^verbatim>\<open>const\<close> and an \<^verbatim>\<open>enum\<close> of two
  elements: it declares neither a const nor a single-element enum, and it is not skipped,
  its first element is listed.
\<close>

theorem anyOf_enum_bullets_counterexample:
  "getAnyOfEnumString sampleStyle
     (JObj [(''anyOf'', JArr [JObj [(''enum'', JArr [JNum 1, JNum 2])]])]) (JStr ''integer'') 1
   = Inr (Some (''   * `1`'' @ NL))
   \<and> getAnyOfEnumString sampleStyle
     (JObj [(''anyOf'', JArr [JObj [(''enum'', JArr [JNum 1, JNum 2])]])]) (JStr ''integer'') 1
   \<noteq> Inr (Some [])"
  by code_simp

section \<open>Theorems on numeric bounds\<close>

lemma map_of_setFieldList:
  "map_of (setFieldList members k v) k' = (if k' = k then Some v else map_of members k')"
  by (induction members) auto

lemma get_setField:
  "get (setField (JObj members) k v) k' = (if k' = k then v else get (JObj members) k')"
  by (simp add: map_of_setFieldList)

lemma downgrade_idem: "downgrade (downgrade items) = downgrade items"
proof (cases items)
  case (JObj members)
  show ?thesis
    unfolding JObj
    by (simp add: downgrade_def Let_def map_of_setFieldList split: jsval.splits option.splits)
qed (simp_all add: downgrade_def)

lemma agree_get:
  "agreeOutsideBounds a b \<Longrightarrow> k \<notin> boundKeys \<Longrightarrow> get a k = get b k"
  by (simp add: agreeOutsideBounds_def)

lemma agree_defined: "agreeOutsideBounds a b \<Longrightarrow> defined a \<and> defined b"
  by (auto simp: agreeOutsideBounds_def defined_def)

lemma notin_bounds [simp]:
  "''typeName'' \<notin> boundKeys" "''type'' \<notin> boundKeys" "''anyOf'' \<notin> boundKeys"
  "''minItems'' \<notin> boundKeys" "''maxItems'' \<notin> boundKeys" "''items'' \<notin> boundKeys"
  "''description'' \<notin> boundKeys" "''required'' \<notin> boundKeys" "''default'' \<notin> boundKeys"
  "''enum'' \<notin> boundKeys" "''gltf_enumNames'' \<notin> boundKeys"
  "''additionalProperties'' \<notin> boundKeys" "''title'' \<notin> boundKeys" "''examples'' \<notin> boundKeys"
  "''format'' \<notin> boundKeys" "''pattern'' \<notin> boundKeys" "''minLength'' \<notin> boundKeys"
  "''maxLength'' \<notin> boundKeys" "''gltf_detailedDescription'' \<notin> boundKeys"
  "''uniqueItems'' \<notin> boundKeys" "''gltf_webgl'' \<notin> boundKeys"
  by (simp_all add: boundKeys_def)

lemma agree_getPropertyType:
  assumes "agreeOutsideBounds a b"
  shows "getPropertyType a = getPropertyType b"
proof -
  have g: "\<And>k. k \<notin> boundKeys \<Longrightarrow> get a k = get b k" using assms by (simp add: agreeOutsideBounds_def)
  show ?thesis using agree_defined[OF assms]
    by (simp add: getPropertyType_def getE_def g Let_def)
qed

lemma agree_getPropertySummary:
  assumes "agreeOutsideBounds a b"
  shows "getPropertySummary st a knownTypes autoLink = getPropertySummary st b knownTypes autoLink"
proof -
  have g: "\<And>k. k \<notin> boundKeys \<Longrightarrow> get a k = get b k" using assms by (simp add: agreeOutsideBounds_def)
  show ?thesis
    by (simp add: getPropertySummary_def agree_getPropertyType[OF assms] arrayBaseType_def arrayInfo_def
        insideBrackets_def g Let_def cong: if_cong)
qed

lemma agree_getEnumString:
  assumes "agreeOutsideBounds a b"
  shows "getEnumString st a type depth = getEnumString st b type depth"
proof -
  have g: "\<And>k. k \<notin> boundKeys \<Longrightarrow> get a k = get b k" using assms by (simp add: agreeOutsideBounds_def)
  show ?thesis using agree_defined[OF assms]
    by (simp add: getEnumString_def getAnyOfEnumString_def getE_def g Let_def)
qed

lemma agree_scalarDetails:
  assumes "agreeOutsideBounds a b"
  shows "scalarDetails st a = scalarDetails st b"
proof -
  have g: "\<And>k. k \<notin> boundKeys \<Longrightarrow> get a k = get b k" using assms by (simp add: agreeOutsideBounds_def)
  show ?thesis by (simp add: scalarDetails_def g Let_def)
qed

lemma agree_additionalPropertiesDetails:
  assumes "agreeOutsideBounds a b"
  shows "additionalPropertiesDetails st a autoLink = additionalPropertiesDetails st b autoLink"
proof -
  have g: "\<And>k. k \<notin> boundKeys \<Longrightarrow> get a k = get b k" using assms by (simp add: agreeOutsideBounds_def)
  show ?thesis by (simp add: additionalPropertiesDetails_def g Let_def cong: if_cong)
qed

lemma agree_examplesDetails:
  assumes "agreeOutsideBounds a b"
  shows "examplesDetails st a type = examplesDetails st b type"
proof -
  have g: "\<And>k. k \<notin> boundKeys \<Longrightarrow> get a k = get b k" using assms by (simp add: agreeOutsideBounds_def)
  show ?thesis by (simp add: examplesDetails_def g Let_def)
qed

lemma agree_setField:
  "agreeOutsideBounds a b \<Longrightarrow> agreeOutsideBounds (setField a k v) (setField b k v)"
  by (auto simp: agreeOutsideBounds_def map_of_setFieldList)

lemma agree_setField_bounds:
  "agreeOutsideBounds a b \<Longrightarrow> k \<notin> boundKeys \<Longrightarrow> k' \<in> boundKeys \<Longrightarrow>
   get (setField a k v) k' = get a k'"
  by (auto simp: agreeOutsideBounds_def map_of_setFieldList)

lemma agree_itemsDetails:
  assumes "agreeOutsideBounds a b"
  shows "(\<exists>e. itemsDetails st a type = Inl e \<and> itemsDetails st b type = Inl e)
         \<or> (\<exists>md a' b'. itemsDetails st a type = Inr (md, a') \<and> itemsDetails st b type = Inr (md, b')
              \<and> agreeOutsideBounds a' b'
              \<and> minimumDetails st a' = minimumDetails st a \<and> maximumDetails st a' = maximumDetails st a
              \<and> minimumDetails st b' = minimumDetails st b \<and> maximumDetails st b' = maximumDetails st b)"
proof (cases "defined (get a ''items'')")
  case False
  with assms show ?thesis by (simp add: itemsDetails_def agree_get[OF assms, symmetric])
next
  case True
  obtain ma mb where ab: "a = JObj ma" "b = JObj mb"
    using assms by (auto simp: agreeOutsideBounds_def)
  have eq: "get b ''items'' = get a ''items''" using assms by (simp add: agree_get)
  have keep: "minimumDetails st (setField a ''items'' v) = minimumDetails st a"
             "maximumDetails st (setField a ''items'' v) = maximumDetails st a"
             "minimumDetails st (setField b ''items'' v) = minimumDetails st b"
             "maximumDetails st (setField b ''items'' v) = maximumDetails st b" for v
    unfolding ab by (simp_all add: minimumDetails_def maximumDetails_def map_of_setFieldList Let_def cong: jsval.case_cong if_cong)
  show ?thesis
  proof (cases "getEnumString st (downgrade (get a ''items'')) type 2")
    case (Inl e)
    with True eq show ?thesis by (simp add: itemsDetails_def Let_def)
  next
    case (Inr s)
    with True eq agree_setField[OF assms] keep show ?thesis
      by (simp add: itemsDetails_def Let_def)
  qed
qed

lemma details_agree:
  assumes ag: "agreeOutsideBounds a b"
    and mn: "minimumDetails st a = minimumDetails st b"
    and mx: "maximumDetails st a = maximumDetails st b"
  shows "map_sum id fst (createPropertiesDetails_property st headerMd knownTypes autoLink properties (name, a))
       = map_sum id fst (createPropertiesDetails_property st headerMd knownTypes autoLink properties (name, b))"
proof (cases "hasOwnProperty properties name")
  case (Inl e)
  then show ?thesis by (simp add: createPropertiesDetails_property_def)
next
  case own: (Inr own)
  show ?thesis
  proof (cases own)
    case False
    with own show ?thesis by (simp add: createPropertiesDetails_property_def)
  next
    case True
    show ?thesis
    proof (cases "getPropertySummary st b knownTypes autoLink")
      case (Inl e)
      with own True ag show ?thesis
        by (simp add: createPropertiesDetails_property_def agree_getPropertySummary)
    next
      case (Inr summary)
      from agree_itemsDetails[OF ag, of st "s_type summary"]
      show ?thesis
      proof (elim disjE exE conjE)
        fix e assume "itemsDetails st a (s_type summary) = Inl e" "itemsDetails st b (s_type summary) = Inl e"
        with own True ag Inr show ?thesis
          by (simp add: createPropertiesDetails_property_def agree_getPropertySummary Let_def)
      next
        fix md a' b'
        assume i: "itemsDetails st a (s_type summary) = Inr (md, a')"
                  "itemsDetails st b (s_type summary) = Inr (md, b')"
          and ag': "agreeOutsideBounds a' b'"
          and k: "minimumDetails st a' = minimumDetails st a" "maximumDetails st a' = maximumDetails st a"
                 "minimumDetails st b' = minimumDetails st b" "maximumDetails st b' = maximumDetails st b"
        have rest:
          "\<And>d. getEnumString st a' (s_type summary) d = getEnumString st b' (s_type summary) d"
          "additionalPropertiesDetails st a' autoLink = additionalPropertiesDetails st b' autoLink"
          "examplesDetails st a' (s_type summary) = examplesDetails st b' (s_type summary)"
          "scalarDetails st a' = scalarDetails st b'"
          using ag' by (simp_all add: agree_getEnumString agree_additionalPropertiesDetails
                agree_examplesDetails agree_scalarDetails)
        have g: "get a ''gltf_detailedDescription'' = get b ''gltf_detailedDescription''"
                "get a ''uniqueItems'' = get b ''uniqueItems''"
                "get a ''gltf_webgl'' = get b ''gltf_webgl''"
          using ag by (simp_all add: agree_get)
        show ?thesis
          unfolding createPropertiesDetails_property_def
          apply (simp add: own True agree_getPropertySummary[OF ag] Inr Let_def i rest k mn mx g
                  del: map_sum.simps)
          apply (cases "getEnumString st b' (s_type summary) (Suc 0)"; simp)
          apply (cases "additionalPropertiesDetails st b' autoLink"; simp)
          apply (cases "examplesDetails st b' (s_type summary)"; simp)
          done
      qed
    qed
  qed
qed


lemma get_downgrade_minimum_forms:
  "get (downgrade (JObj ((''exclusiveMinimum'', JNum n) # members))) k
   = get (downgrade (JObj ((''minimum'', JNum n) # (''exclusiveMinimum'', JBool True) # members))) k"
  by (simp add: downgrade_def Let_def map_of_setFieldList split: jsval.splits option.splits)

lemma get_downgrade_maximum_forms:
  "get (downgrade (JObj ((''exclusiveMaximum'', JNum n) # members))) k
   = get (downgrade (JObj ((''maximum'', JNum n) # (''exclusiveMaximum'', JBool True) # members))) k"
  by (simp add: downgrade_def Let_def map_of_setFieldList split: jsval.splits option.splits)

lemma itemsRange_cong:
  "(\<And>k. get a k = get b k) \<Longrightarrow> itemsRange st each a = itemsRange st each b"
  by (simp add: itemsRange_def Let_def cong: if_cong)

text \<open>
  Claim C6. A property whose \<^verbatim>\<open>exclusiveMinimum\<close> is the number \<open>n\<close> and a property
  whose \<^verbatim>\<open>minimum\<close> is \<open>n\<close> with \<^verbatim>\<open>exclusiveMinimum\<close> true get the same
  \<open>Minimum\<close> bullet, whose text is the style's rendering of \<open> > n\<close>, and the whole
  details text of the two properties is the same; likewise for the maximum with \<open> < n\<close>.
  For the items of an array the numeric encoding is rewritten by \<open>downgrade\<close> into the
  boolean one before the one formatting function \<open>itemsRange\<close> runs, so both encodings
  give the same bullet (``greater than'', ``less than''), and the rewriting is idempotent.
\<close>

theorem exclusive_bound_encodings_render_alike:
  "minimumDetails st (JObj ((''exclusiveMinimum'', JNum n) # members))
     = bulletItem st (propertyDetails st ''Minimum'' @ '': ''
         @ minMax st (JStr ('' > '' @ showInt n))) (Some 0)
   \<and> minimumDetails st (JObj ((''minimum'', JNum n) # (''exclusiveMinimum'', JBool True) # members))
     = bulletItem st (propertyDetails st ''Minimum'' @ '': ''
         @ minMax st (JStr ('' > '' @ showInt n))) (Some 0)
   \<and> maximumDetails st (JObj ((''exclusiveMaximum'', JNum n) # members))
     = bulletItem st (propertyDetails st ''Maximum'' @ '': ''
         @ minMax st (JStr ('' < '' @ showInt n))) (Some 0)
   \<and> maximumDetails st (JObj ((''maximum'', JNum n) # (''exclusiveMaximum'', JBool True) # members))
     = bulletItem st (propertyDetails st ''Maximum'' @ '': ''
         @ minMax st (JStr ('' < '' @ showInt n))) (Some 0)
   \<and> map_sum id fst
       (createPropertiesDetails_property st headerMd knownTypes autoLink properties
          (name, JObj ((''exclusiveMinimum'', JNum n) # members)))
     = map_sum id fst
       (createPropertiesDetails_property st headerMd knownTypes autoLink properties
          (name, JObj ((''minimum'', JNum n) # (''exclusiveMinimum'', JBool True) # members)))
   \<and> map_sum id fst
       (createPropertiesDetails_property st headerMd knownTypes autoLink properties
          (name, JObj ((''exclusiveMaximum'', JNum n) # members)))
     = map_sum id fst
       (createPropertiesDetails_property st headerMd knownTypes autoLink properties
          (name, JObj ((''maximum'', JNum n) # (''exclusiveMaximum'', JBool True) # members)))
   \<and> itemsRange st each (downgrade (JObj ((''exclusiveMinimum'', JNum n) # members)))
     = itemsRange st each
         (downgrade (JObj ((''minimum'', JNum n) # (''exclusiveMinimum'', JBool True) # members)))
   \<and> itemsRange st each (downgrade (JObj ((''exclusiveMaximum'', JNum n) # members)))
     = itemsRange st each
         (downgrade (JObj ((''maximum'', JNum n) # (''exclusiveMaximum'', JBool True) # members)))
   \<and> itemsRange st each (downgrade (JObj [(''exclusiveMinimum'', JNum n)]))
     = bulletItem st (each @ ''be greater than '' @ minMax st (JNum n) @ ''.'') (Some 1)
   \<and> itemsRange st each (downgrade (JObj [(''exclusiveMaximum'', JNum n)]))
     = bulletItem st (each @ ''be less than '' @ minMax st (JNum n) @ ''.'') (Some 1)
   \<and> downgrade (downgrade items) = downgrade items"
proof -
  let ?minN = "JObj ((''exclusiveMinimum'', JNum n) # members)"
  let ?minB = "JObj ((''minimum'', JNum n) # (''exclusiveMinimum'', JBool True) # members)"
  let ?maxN = "JObj ((''exclusiveMaximum'', JNum n) # members)"
  let ?maxB = "JObj ((''maximum'', JNum n) # (''exclusiveMaximum'', JBool True) # members)"
  let ?minText = "bulletItem st (propertyDetails st ''Minimum'' @ '': ''
         @ minMax st (JStr ('' > '' @ showInt n))) (Some 0)"
  let ?maxText = "bulletItem st (propertyDetails st ''Maximum'' @ '': ''
         @ minMax st (JStr ('' < '' @ showInt n))) (Some 0)"
  have min: "minimumDetails st ?minN = ?minText" "minimumDetails st ?minB = ?minText"
    by (simp_all add: minimumDetails_def defined_def)
  have max: "maximumDetails st ?maxN = ?maxText" "maximumDetails st ?maxB = ?maxText"
    by (simp_all add: maximumDetails_def defined_def)
  have minmax: "maximumDetails st ?minN = maximumDetails st ?minB"
    by (simp add: maximumDetails_def Let_def cong: jsval.case_cong if_cong)
  have maxmin: "minimumDetails st ?maxN = minimumDetails st ?maxB"
    by (simp add: minimumDetails_def Let_def cong: jsval.case_cong if_cong)
  have agreeMin: "agreeOutsideBounds ?minN ?minB"
    by (simp add: agreeOutsideBounds_def boundKeys_def)
  have agreeMax: "agreeOutsideBounds ?maxN ?maxB"
    by (simp add: agreeOutsideBounds_def boundKeys_def)
  have detailsMin:
    "map_sum id fst
       (createPropertiesDetails_property st headerMd knownTypes autoLink properties (name, ?minN))
     = map_sum id fst
       (createPropertiesDetails_property st headerMd knownTypes autoLink properties (name, ?minB))"
    using agreeMin min minmax by (intro details_agree) simp_all
  have detailsMax:
    "map_sum id fst
       (createPropertiesDetails_property st headerMd knownTypes autoLink properties (name, ?maxN))
     = map_sum id fst
       (createPropertiesDetails_property st headerMd knownTypes autoLink properties (name, ?maxB))"
    using agreeMax max maxmin by (intro details_agree) simp_all
  have itemsMin: "itemsRange st each (downgrade ?minN) = itemsRange st each (downgrade ?minB)"
    by (rule itemsRange_cong) (rule get_downgrade_minimum_forms)
  have itemsMax: "itemsRange st each (downgrade ?maxN) = itemsRange st each (downgrade ?maxB)"
    by (rule itemsRange_cong) (rule get_downgrade_maximum_forms)
  have greater: "itemsRange st each (downgrade (JObj [(''exclusiveMinimum'', JNum n)]))
     = bulletItem st (each @ ''be greater than '' @ minMax st (JNum n) @ ''.'') (Some 1)"
    by (simp add: itemsRange_def downgrade_def defined_def)
  have less: "itemsRange st each (downgrade (JObj [(''exclusiveMaximum'', JNum n)]))
     = bulletItem st (each @ ''be less than '' @ minMax st (JNum n) @ ''.'') (Some 1)"
    by (simp add: itemsRange_def downgrade_def defined_def)
  show ?thesis
    using min max detailsMin detailsMax itemsMin itemsMax greater less downgrade_idem
    by simp
qed

theorem exclusive_bound_encodings_render_alike_witness:
  "minimumDetails sampleStyle (JObj [(''exclusiveMinimum'', JNum 5), (''type'', JStr ''number'')])
     = ''* **Minimum**: ` > 5`'' @ NL
   \<and> minimumDetails sampleStyle
       (JObj [(''minimum'', JNum 5), (''exclusiveMinimum'', JBool True), (''type'', JStr ''number'')])
     = ''* **Minimum**: ` > 5`'' @ NL"
proof -
  have digit: "showInt 5 = ''5''" by code_simp
  show ?thesis
    using exclusive_bound_encodings_render_alike[of sampleStyle 5 "[(''type'', JStr ''number'')]"]
    by (simp add: sampleStyle_def code_def digit)
qed

section \<open>Theorems on the state of the type graph\<close>

lemma setFieldList_same: "map_of members k = Some v \<Longrightarrow> setFieldList members k v = members"
  by (induction members) (auto split: if_splits)

lemma get_downgrade_frame: "k \<notin> boundKeys \<Longrightarrow> get (downgrade items) k = get items k"
proof (cases items)
  case (JObj members)
  assume "k \<notin> boundKeys"
  then show ?thesis unfolding JObj
    by (simp add: downgrade_def Let_def map_of_setFieldList boundKeys_def
             split: jsval.splits option.splits)
qed (simp_all add: downgrade_def)

lemma get_downgrade_minimum:
  "get items ''exclusiveMinimum'' = JNum n \<Longrightarrow>
   get (downgrade items) ''minimum'' = JNum n
   \<and> get (downgrade items) ''exclusiveMinimum'' = JBool True"
proof (cases items)
  case (JObj members)
  assume "get items ''exclusiveMinimum'' = JNum n"
  then show ?thesis unfolding JObj
    by (simp add: downgrade_def Let_def map_of_setFieldList split: jsval.splits option.splits)
qed simp_all

lemma get_downgrade_maximum:
  "get items ''exclusiveMaximum'' = JNum n \<Longrightarrow>
   get (downgrade items) ''maximum'' = JNum n
   \<and> get (downgrade items) ''exclusiveMaximum'' = JBool True"
proof (cases items)
  case (JObj members)
  assume "get items ''exclusiveMaximum'' = JNum n"
  then show ?thesis unfolding JObj
    by (simp add: downgrade_def Let_def map_of_setFieldList split: jsval.splits option.splits)
qed simp_all

lemma downgrade_unchanged:
  "\<not> isNumber (get items ''exclusiveMinimum'') \<Longrightarrow> \<not> isNumber (get items ''exclusiveMaximum'')
   \<Longrightarrow> downgrade items = items"
  by (auto simp: downgrade_def isNumber_def Let_def split: jsval.splits)

lemma setField_get_same: "defined (get v k) \<Longrightarrow> setField v k (get v k) = v"
  by (cases v) (auto simp: defined_def setFieldList_same split: option.splits)

lemma downgradeProperty_unchanged:
  "\<not> numericExclusiveItems property \<Longrightarrow> downgradeProperty property = property"
  by (simp add: downgradeProperty_def numericExclusiveItems_def downgrade_unchanged setField_get_same)

lemma get_downgradeProperty_frame:
  "k \<noteq> ''items'' \<Longrightarrow> get (downgradeProperty property) k = get property k"
  by (cases property) (simp_all add: downgradeProperty_def map_of_setFieldList)

lemma withValues_same: "withValues v (map snd (ownEntries v)) = v"
  by (cases v) (simp_all add: zip_map_fst_snd)

lemma ownEntries_nonempty_defined: "ownEntries v \<noteq> [] \<Longrightarrow> defined v"
  by (cases v) (auto simp: defined_def)

lemma downgradeSchema_unchanged:
  assumes "list_all (\<lambda>entry. \<not> numericExclusiveItems (snd entry)) (ownEntries (get schema ''properties''))"
  shows "downgradeSchema schema = schema"
proof -
  have eq: "map (\<lambda>entry. downgradeProperty (snd entry)) (ownEntries (get schema ''properties''))
        = map snd (ownEntries (get schema ''properties''))"
    using assms by (auto simp: list_all_iff downgradeProperty_unchanged)
  show ?thesis
    unfolding downgradeSchema_def Let_def eq
    by (simp add: withValues_same setField_get_same ownEntries_nonempty_defined)
qed

lemma get_downgradeSchema_frame:
  "k \<noteq> ''properties'' \<Longrightarrow> get (downgradeSchema schema) k = get schema k"
  by (cases schema) (simp_all add: downgradeSchema_def Let_def map_of_setFieldList)

lemma names_withValues:
  "length vs = length (ownEntries v) \<Longrightarrow> map fst (ownEntries (withValues v vs)) = map fst (ownEntries v)"
  by (cases v) simp_all

lemma get_properties_object:
  "ownEntries (get schema k) \<noteq> [] \<Longrightarrow> \<exists>members. schema = JObj members"
  by (cases schema) simp_all

lemma get_setField_same: "get (setField (JObj members) k v) k = v"
  by (simp add: map_of_setFieldList)

lemma names_downgradeSchema:
  "map fst (ownEntries (get (downgradeSchema schema) ''properties''))
   = map fst (ownEntries (get schema ''properties''))"
proof (cases "ownEntries (get schema ''properties'') = []")
  case True
  then show ?thesis by (simp add: downgradeSchema_def)
next
  case False
  then obtain members where s: "schema = JObj members"
    using get_properties_object by blast
  from False show ?thesis
    unfolding downgradeSchema_def Let_def s
    by (simp only: if_False get_setField_same names_withValues length_map)
qed

lemma hasOwnProperty_not_False: "hasOwnProperty properties name \<noteq> Inr False"
  by (cases properties) (auto split: if_splits)

lemma itemsDetails_state:
  "itemsDetails st property type = Inr (md, property') \<Longrightarrow> property' = downgradeProperty property"
  by (auto simp: itemsDetails_def downgradeProperty_def Let_def andThen_Inr_iff split: if_splits)

lemma property_state:
  "createPropertiesDetails_property st headerMd knownTypes autoLink properties entry = Inr (md, property')
   \<Longrightarrow> property' = downgradeProperty (snd entry)"
  by (cases entry)
     (auto simp: createPropertiesDetails_property_def Let_def andThen_Inr_iff hasOwnProperty_not_False
           split: if_splits dest!: itemsDetails_state)

lemma mapE_snd:
  assumes "mapE f xs = Inr ys" and "\<And>x y. f x = Inr y \<Longrightarrow> snd y = g x"
  shows "map snd ys = map g xs"
  using assms(1)
proof (induction xs arbitrary: ys)
  case Nil
  then show ?case by simp
next
  case (Cons x xs)
  then show ?case by (auto simp: andThen_Inr_iff dest: assms(2))
qed

lemma createPropertiesDetails_state:
  assumes "createPropertiesDetails st schema title headerLevel knownTypes autoLink = Inr (md, schema')"
  shows "schema' = downgradeSchema schema"
proof -
  let ?properties = "get schema ''properties''"
  from assms obtain results where
    r: "mapE (createPropertiesDetails_property st (getHeaderMarkdown st headerLevel) knownTypes autoLink
               ?properties) (ownEntries ?properties) = Inr results"
    and s: "schema' = (if ownEntries ?properties = [] then schema
                       else setField schema ''properties'' (withValues ?properties (map snd results)))"
    by (auto simp: createPropertiesDetails_def Let_def andThen_Inr_iff getE_def split: if_splits)
  have "map snd results = map (\<lambda>entry. downgradeProperty (snd entry)) (ownEntries ?properties)"
    using r by (rule mapE_snd) (metis property_state prod.collapse)
  with s show ?thesis by (simp add: downgradeSchema_def Let_def)
qed

lemma getSchemaMarkdown_state:
  assumes "getSchemaMarkdown st schema fileName headerLevel suppressWarnings schemaRelativeBasePath
             knownTypes autoLink embedMode = Inr (md, schema')"
  shows "schema' = schema \<or> schema' = downgradeSchema schema"
  using assms
  by (auto simp: getSchemaMarkdown_def Let_def andThen_Inr_iff split: if_splits
           dest!: createPropertiesDetails_state)

text \<open>
  Claim C5, as the code has it. The schema a render pass leaves behind is the schema it
  was given or that schema with the items of its properties downgraded. So every field
  of the type other than \<^verbatim>\<open>properties\<close> is unchanged and the properties keep their
  names; of a property only \<^verbatim>\<open>items\<close> can change, and of the items only the four bound
  fields: a numeric \<^verbatim>\<open>exclusiveMinimum\<close> \<open>n\<close> becomes \<^verbatim>\<open>minimum\<close> \<open>n\<close> with
  \<^verbatim>\<open>exclusiveMinimum\<close> true, likewise for the maximum, and items without a numeric
  exclusive bound stay as they are. A schema none of whose properties has such items is
  unchanged by the pass.
\<close>

theorem rendering_changes_only_downgraded_items:
  assumes "getSchemaMarkdown st schema fileName headerLevel suppressWarnings schemaRelativeBasePath
             knownTypes autoLink embedMode = Inr (md, schema')"
  shows "(schema' = schema \<or> schema' = downgradeSchema schema)
     \<and> (list_all (\<lambda>entry. \<not> numericExclusiveItems (snd entry)) (ownEntries (get schema ''properties''))
          \<longrightarrow> schema' = schema)
     \<and> (\<forall>k. k \<noteq> ''properties'' \<longrightarrow> get schema' k = get schema k)
     \<and> map fst (ownEntries (get schema' ''properties''))
       = map fst (ownEntries (get schema ''properties''))
     \<and> (\<forall>property k. k \<noteq> ''items'' \<longrightarrow> get (downgradeProperty property) k = get property k)
     \<and> (\<forall>property. defined (get property ''items'')
          \<longrightarrow> get (downgradeProperty property) ''items'' = downgrade (get property ''items''))
     \<and> (\<forall>items k. k \<notin> boundKeys \<longrightarrow> get (downgrade items) k = get items k)
     \<and> (\<forall>items n. get items ''exclusiveMinimum'' = JNum n
          \<longrightarrow> get (downgrade items) ''minimum'' = JNum n
              \<and> get (downgrade items) ''exclusiveMinimum'' = JBool True)
     \<and> (\<forall>items n. get items ''exclusiveMaximum'' = JNum n
          \<longrightarrow> get (downgrade items) ''maximum'' = JNum n
              \<and> get (downgrade items) ''exclusiveMaximum'' = JBool True)
     \<and> (\<forall>items. \<not> isNumber (get items ''exclusiveMinimum'')
                 \<and> \<not> isNumber (get items ''exclusiveMaximum'')
          \<longrightarrow> downgrade items = items)"
proof -
  note state = getSchemaMarkdown_state[OF assms]
  have same: "schema' = schema"
    if "list_all (\<lambda>entry. \<not> numericExclusiveItems (snd entry)) (ownEntries (get schema ''properties''))"
    using state downgradeSchema_unchanged[OF that] by auto
  have fields: "\<forall>k. k \<noteq> ''properties'' \<longrightarrow> get schema' k = get schema k"
    using state get_downgradeSchema_frame by auto
  have names: "map fst (ownEntries (get schema' ''properties''))
       = map fst (ownEntries (get schema ''properties''))"
    using state names_downgradeSchema by auto
  have items: "get (downgradeProperty property) ''items'' = downgrade (get property ''items'')"
    if "defined (get property ''items'')" for property
    using that by (cases property) (simp_all add: downgradeProperty_def map_of_setFieldList defined_def)
  show ?thesis
    apply (intro conjI allI impI)
    subgoal by (rule state)
    subgoal by (rule same)
    subgoal using fields by blast
    subgoal by (rule names)
    subgoal by (rule get_downgradeProperty_frame)
    subgoal by (rule items)
    subgoal by (rule get_downgrade_frame)
    subgoal using get_downgrade_minimum by blast
    subgoal using get_downgrade_minimum by blast
    subgoal using get_downgrade_maximum by blast
    subgoal using get_downgrade_maximum by blast
    subgoal using downgrade_unchanged by blast
    done
qed

theorem rendering_changes_only_downgraded_items_witness:
  "\<not> isl (getSchemaMarkdown sampleStyle numbersAbove (JStr ''numbers.schema.json'') 2 JUndefined
             JUndefined [] JUndefined FullExpansion)
   \<and> snd (projr (getSchemaMarkdown sampleStyle numbersAbove (JStr ''numbers.schema.json'') 2
                   JUndefined JUndefined [] JUndefined FullExpansion))
     = downgradeSchema numbersAbove
   \<and> downgradeSchema numbersAbove = numbersAboveRendered
   \<and> \<not> isl (getSchemaMarkdown sampleStyle rootOnly (JStr ''root.schema.json'') 2 JUndefined
             JUndefined [] JUndefined FullExpansion)
   \<and> snd (projr (getSchemaMarkdown sampleStyle rootOnly (JStr ''root.schema.json'') 2
                   JUndefined JUndefined [] JUndefined FullExpansion))
     = rootOnly"
proof -
  let ?numbers = "getSchemaMarkdown sampleStyle numbersAbove (JStr ''numbers.schema.json'') 2
                    JUndefined JUndefined [] JUndefined FullExpansion"
  let ?root = "getSchemaMarkdown sampleStyle rootOnly (JStr ''root.schema.json'') 2
                 JUndefined JUndefined [] JUndefined FullExpansion"
  have completes: "\<not> isl ?numbers" "\<not> isl ?root"
    by code_simp+
  then have runs: "?numbers = Inr (fst (projr ?numbers), snd (projr ?numbers))"
    "?root = Inr (fst (projr ?root), snd (projr ?root))"
    by simp_all
  have changed: "snd (projr ?numbers) \<noteq> numbersAbove"
    by code_simp
  have rendered: "downgradeSchema numbersAbove = numbersAboveRendered"
    by code_simp
  have plain: "list_all (\<lambda>entry. \<not> numericExclusiveItems (snd entry))
                 (ownEntries (get rootOnly ''properties''))"
    by (simp add: rootOnly_def numericExclusiveItems_def isNumber_def)
  have "snd (projr ?numbers) = downgradeSchema numbersAbove"
    using rendering_changes_only_downgraded_items[OF runs(1)] changed by blast
  moreover have "snd (projr ?root) = rootOnly"
    using rendering_changes_only_downgraded_items[OF runs(2)] plain by blast
  ultimately show ?thesis using completes rendered by simp
qed

text \<open>
  Claim C5 as stated fails on \<open>numbersAbove\<close>: after the render pass the items of its
  property hold \<^verbatim>\<open>exclusiveMinimum\<close> true and \<^verbatim>\<open>minimum\<close> 5 where they held
  \<^verbatim>\<open>exclusiveMinimum\<close> 5.
\<close>

theorem rendering_changes_schema_counterexample:
  "\<not> isl (getSchemaMarkdown sampleStyle numbersAbove (JStr ''numbers.schema.json'') 2 JUndefined
             JUndefined [] JUndefined FullExpansion)
   \<and> snd (projr (getSchemaMarkdown sampleStyle numbersAbove (JStr ''numbers.schema.json'') 2
                   JUndefined JUndefined [] JUndefined FullExpansion))
     = numbersAboveRendered
   \<and> numbersAboveRendered \<noteq> numbersAbove"
  by code_simp

section \<open>Theorems on the table of contents\<close>

lemma nestedUnder_Nil [simp]: "\<not> nestedUnder [] p c d"
  by (simp add: nestedUnder_def)

lemma nestedUnder_Cons_Nested [simp]:
  "nestedUnder (NestedItem p' c' tn d' # xs) p c d
   \<longleftrightarrow> (p' = p \<and> c' = c \<and> d' = d) \<or> nestedUnder xs p c d"
  by (simp add: nestedUnder_def)

lemma nestedUnder_Cons_Top [simp]:
  "nestedUnder (TopItem t tn r # xs) p c d \<longleftrightarrow> nestedUnder xs p c d"
  by (simp add: nestedUnder_def)

lemma nestedUnder_append [simp]:
  "nestedUnder (xs @ ys) p c d \<longleftrightarrow> nestedUnder xs p c d \<or> nestedUnder ys p c d"
  by (simp add: nestedUnder_def)

lemma nestedOnly_Nil [simp]: "nestedOnly g d p cs []"
  by (simp add: nestedOnly_def)

lemma nestedOnly_skip: "nestedOnly g d p cs xs \<Longrightarrow> nestedOnly g d p (c # cs) xs"
  by (simp add: nestedOnly_def)

lemma nestedOnly_step:
  assumes sub: "nestedOnly g (d + 1) c (childrenOf g c) sub"
    and later: "nestedOnly g d p rest later"
    and single: "singleParent g c"
    and child: "c \<in> set (childrenOf g p)"
  shows "nestedOnly g d p (c # rest) (NestedItem p c tn d # sub @ later)"
  unfolding nestedOnly_def
proof (intro conjI allI impI ballI)
  fix x assume "x \<in> set (NestedItem p c tn d # sub @ later)"
  then show "\<not> isTop x" using sub later by (auto simp: nestedOnly_def)
next
  fix p' c' d'
  assume n: "nestedUnder (NestedItem p c tn d # sub @ later) p' c' d'"
  then consider (head) "p' = p" "c' = c" "d' = d"
    | (sub) "nestedUnder sub p' c' d'" | (later) "nestedUnder later p' c' d'"
    by auto
  then have "singleParent g c' \<and> c' \<in> set (childrenOf g p') \<and> d \<le> d'
        \<and> (d' = d \<longrightarrow> p' = p \<and> c' \<in> set (c # rest))
        \<and> (d < d' \<longrightarrow> (\<exists>q. nestedUnder (NestedItem p c tn d # sub @ later) q p' (d' - 1)))"
  proof cases
    case head
    then show ?thesis using single child by simp
  next
    case sub
    with assms(1) have s: "singleParent g c'" "c' \<in> set (childrenOf g p')" "d + 1 \<le> d'"
      "d' = d + 1 \<longrightarrow> p' = c" "d + 1 < d' \<longrightarrow> (\<exists>q. nestedUnder sub q p' (d' - 1))"
      unfolding nestedOnly_def by blast+
    show ?thesis
    proof (cases "d' = d + 1")
      case True
      with s show ?thesis by auto
    next
      case False
      with s have "\<exists>q. nestedUnder sub q p' (d' - 1)" by simp
      with s False show ?thesis by auto
    qed
  next
    case later
    with assms(2) have s: "singleParent g c'" "c' \<in> set (childrenOf g p')" "d \<le> d'"
      "d' = d \<longrightarrow> p' = p \<and> c' \<in> set rest" "d < d' \<longrightarrow> (\<exists>q. nestedUnder later q p' (d' - 1))"
      unfolding nestedOnly_def by blast+
    then show ?thesis by auto
  qed
  then show "singleParent g c'" "c' \<in> set (childrenOf g p')" "d \<le> d'"
    "d' = d \<Longrightarrow> p' = p" "d' = d \<Longrightarrow> c' \<in> set (c # rest)"
    "d < d' \<Longrightarrow> \<exists>q. nestedUnder (NestedItem p c tn d # sub @ later) q p' (d' - 1)"
    by blast+
qed

lemma recursiveItems_nestedOnly:
  "(\<forall>xs. recursiveItems k g p d = Inr xs \<longrightarrow> nestedOnly g d p (childrenOf g p) xs)"
  "(\<forall>xs. recursiveItems_loop k g p d cs = Inr xs \<longrightarrow> set cs \<subseteq> set (childrenOf g p)
         \<longrightarrow> nestedOnly g d p cs xs)"
proof (induction k g p d and k g p d cs rule: recursiveItems_recursiveItems_loop.induct)
  case (1 orderedTypes parentTitle depth)
  then show ?case by simp
next
  case (2 stack orderedTypes parentTitle depth)
  then show ?case by (auto simp: childrenOf_def split: option.splits)
next
  case (3 stack orderedTypes parentTitle depth)
  then show ?case by simp
next
  case (4 stack orderedTypes parentTitle depth currentTitle rest)
  show ?case
  proof (intro allI impI)
    fix xs
    assume run: "recursiveItems_loop stack orderedTypes parentTitle depth (currentTitle # rest) = Inr xs"
      and sub: "set (currentTitle # rest) \<subseteq> set (childrenOf orderedTypes parentTitle)"
    from run obtain currentType where ct: "map_of orderedTypes currentTitle = Some currentType"
      by (auto split: option.splits)
    show "nestedOnly orderedTypes depth parentTitle (currentTitle # rest) xs"
    proof (cases "length (t_parents currentType) = 1")
      case True
      with run ct obtain typeName subItems later where
        parts: "recursiveItems stack orderedTypes currentTitle (depth + 1) = Inr subItems"
          "recursiveItems_loop stack orderedTypes parentTitle depth rest = Inr later"
          "xs = NestedItem parentTitle currentTitle typeName depth # subItems @ later"
        by (auto simp: andThen_Inr_iff)
      have "nestedOnly orderedTypes (depth + 1) currentTitle (childrenOf orderedTypes currentTitle) subItems"
        using "4.IH"(1)[OF ct True] parts(1) by blast
      moreover have "nestedOnly orderedTypes depth parentTitle rest later"
        using "4.IH"(2)[OF ct True] parts(2) sub by auto
      moreover have "singleParent orderedTypes currentTitle"
        using ct True by (simp add: singleParent_def)
      ultimately show ?thesis
        unfolding parts(3) using sub by (intro nestedOnly_step) auto
    next
      case False
      with run ct have "recursiveItems_loop stack orderedTypes parentTitle depth rest = Inr xs"
        by simp
      then have "nestedOnly orderedTypes depth parentTitle rest xs"
        using "4.IH"(3)[OF ct False] sub by auto
      then show ?thesis by (rule nestedOnly_skip)
    qed
  qed
qed

lemma nestedAll_Nil [simp]: "nestedAll g []"
  by (simp add: nestedAll_def)

lemma nestedAll_step:
  assumes sub: "nestedAll g sub"
    and children: "\<forall>c'\<in>set (childrenOf g c). singleParent g c' \<longrightarrow> nestedUnder sub c c' (Suc d)"
    and later: "nestedAll g later"
  shows "nestedAll g (NestedItem p c tn d # sub @ later)"
  using assms unfolding nestedAll_def by auto

lemma recursiveItems_nestedAll:
  "(\<forall>xs. recursiveItems k g p d = Inr xs \<longrightarrow>
      (\<forall>c\<in>set (childrenOf g p). singleParent g c \<longrightarrow> nestedUnder xs p c d) \<and> nestedAll g xs)"
  "(\<forall>xs. recursiveItems_loop k g p d cs = Inr xs \<longrightarrow>
      (\<forall>c\<in>set cs. singleParent g c \<longrightarrow> nestedUnder xs p c d) \<and> nestedAll g xs)"
proof (induction k g p d and k g p d cs rule: recursiveItems_recursiveItems_loop.induct)
  case (1 orderedTypes parentTitle depth)
  then show ?case by simp
next
  case (2 stack orderedTypes parentTitle depth)
  then show ?case by (auto simp: childrenOf_def split: option.splits)
next
  case (3 stack orderedTypes parentTitle depth)
  then show ?case by simp
next
  case (4 stack orderedTypes parentTitle depth currentTitle rest)
  show ?case
  proof (intro allI impI)
    fix xs
    assume run: "recursiveItems_loop stack orderedTypes parentTitle depth (currentTitle # rest) = Inr xs"
    from run obtain currentType where ct: "map_of orderedTypes currentTitle = Some currentType"
      by (auto split: option.splits)
    show "(\<forall>c\<in>set (currentTitle # rest). singleParent orderedTypes c \<longrightarrow> nestedUnder xs parentTitle c depth)
          \<and> nestedAll orderedTypes xs"
    proof (cases "length (t_parents currentType) = 1")
      case True
      with run ct obtain typeName subItems later where
        parts: "recursiveItems stack orderedTypes currentTitle (depth + 1) = Inr subItems"
          "recursiveItems_loop stack orderedTypes parentTitle depth rest = Inr later"
          "xs = NestedItem parentTitle currentTitle typeName depth # subItems @ later"
        by (auto simp: andThen_Inr_iff)
      have s: "\<forall>c\<in>set (childrenOf orderedTypes currentTitle). singleParent orderedTypes c
                 \<longrightarrow> nestedUnder subItems currentTitle c (Suc depth)"
        "nestedAll orderedTypes subItems"
        using "4.IH"(1)[OF ct True] parts(1) by auto
      have l: "\<forall>c\<in>set rest. singleParent orderedTypes c \<longrightarrow> nestedUnder later parentTitle c depth"
        "nestedAll orderedTypes later"
        using "4.IH"(2)[OF ct True] parts(2) by auto
      show ?thesis
        unfolding parts(3) using l(1) nestedAll_step[OF s(2) s(1) l(2)] by auto
    next
      case False
      with run ct have "recursiveItems_loop stack orderedTypes parentTitle depth rest = Inr xs"
        by simp
      then have "(\<forall>c\<in>set rest. singleParent orderedTypes c \<longrightarrow> nestedUnder xs parentTitle c depth)
          \<and> nestedAll orderedTypes xs"
        using "4.IH"(3)[OF ct False] by auto
      then show ?thesis using ct False by (auto simp: singleParent_def)
    qed
  qed
qed

lemma getRecursiveTOC_items:
  "getRecursiveTOC st k g p d
   = map_sum id (\<lambda>items. concat (map (renderItem st) items)) (recursiveItems k g p d)"
  "getRecursiveTOC_loop st k g p d cs
   = map_sum id (\<lambda>items. concat (map (renderItem st) items)) (recursiveItems_loop k g p d cs)"
proof (induction k g p d and k g p d cs rule: recursiveItems_recursiveItems_loop.induct)
  case (1 orderedTypes parentTitle depth)
  then show ?case by simp
next
  case (2 stack orderedTypes parentTitle depth)
  then show ?case by (simp split: option.splits)
next
  case (3 stack orderedTypes parentTitle depth)
  then show ?case by simp
next
  case (4 stack orderedTypes parentTitle depth currentTitle rest)
  show ?case
  proof (cases "map_of orderedTypes currentTitle")
    case None
    then show ?thesis by simp
  next
    case (Some currentType)
    show ?thesis
    proof (cases "length (t_parents currentType) = 1")
      case True
      note ih = "4.IH"(1)[OF Some True] "4.IH"(2)[OF Some True]
      show ?thesis
      proof (cases "getE (t_schema currentType) ''typeName''")
        case (Inl e)
        with Some True show ?thesis by simp
      next
        case (Inr typeName)
        show ?thesis
          using Some True Inr ih
          by (cases "recursiveItems stack orderedTypes currentTitle (depth + 1)";
              cases "recursiveItems_loop stack orderedTypes parentTitle depth rest") simp_all
      qed
    next
      case False
      with Some "4.IH"(3)[OF Some False] show ?thesis by simp
    qed
  qed
qed

lemma getTableOfContentsMarkdown_loop_items:
  "getTableOfContentsMarkdown_loop st k schema g rest
   = map_sum id (\<lambda>items. concat (map (renderItem st) items))
       (tableOfContentsItems_loop k schema g rest)"
proof (induction rest)
  case Nil
  then show ?case by simp
next
  case (Cons entry rest)
  obtain title currentType where entry: "entry = (title, currentType)" by (cases entry)
  show ?case
  proof (cases "getE schema ''title''")
    case (Inl e)
    then show ?thesis by (simp add: entry)
  next
    case root: (Inr rootTitle)
    show ?thesis
    proof (cases "listedAtTop rootTitle (title, currentType)")
      case False
      with root Cons show ?thesis by (simp add: entry listedAtTop_def)
    next
      case True
      show ?thesis
      proof (cases "getE (t_schema currentType) ''typeName''")
        case (Inl e)
        with root True show ?thesis by (simp add: entry listedAtTop_def)
      next
        case (Inr typeName)
        show ?thesis
          using root True Inr Cons
          by (cases "recursiveItems k g title 1"; cases "tableOfContentsItems_loop k schema g rest")
             (simp_all add: entry listedAtTop_def getRecursiveTOC_items)
      qed
    qed
  qed
qed

lemma getTableOfContentsMarkdown_items:
  "getTableOfContentsMarkdown st k schema g headerLevel
   = map_sum id (\<lambda>items. getHeaderMarkdown st headerLevel @ '' Objects'' @ NL
                           @ concat (map (renderItem st) items))
       (tableOfContentsItems k schema g)"
  by (cases "tableOfContentsItems_loop k schema g g")
     (simp_all add: getTableOfContentsMarkdown_def tableOfContentsItems_def
        getTableOfContentsMarkdown_loop_items)

lemma topOnly_Nil [simp]: "topOnly g root ts []"
  by (simp add: topOnly_def)

lemma topOnly_skip: "topOnly g root ts xs \<Longrightarrow> topOnly g root (t # ts) xs"
  by (auto simp: topOnly_def)

lemma filter_isTop_nestedOnly: "nestedOnly g d p cs xs \<Longrightarrow> filter isTop xs = []"
  by (auto simp: nestedOnly_def filter_empty_conv)

lemma topOnly_step:
  assumes sub: "nestedOnly g 1 t (childrenOf g t) sub"
    and later: "topOnly g root ts later"
    and root: "JStr t \<noteq> root"
  shows "topOnly g root (t # ts) (TopItem t tn r # sub @ later)"
  unfolding topOnly_def
proof (intro allI impI)
  fix p c d
  assume "nestedUnder (TopItem t tn r # sub @ later) p c d"
  then consider (sub) "nestedUnder sub p c d" | (later) "nestedUnder later p c d"
    by auto
  then show "singleParent g c \<and> c \<in> set (childrenOf g p) \<and> 1 \<le> d
        \<and> (d = 1 \<longrightarrow> JStr p \<noteq> root \<and> p \<in> set (t # ts))
        \<and> (1 < d \<longrightarrow> (\<exists>q. nestedUnder (TopItem t tn r # sub @ later) q p (d - 1)))"
  proof cases
    case sub
    with assms(1) have s: "singleParent g c" "c \<in> set (childrenOf g p)" "1 \<le> d"
      "d = 1 \<longrightarrow> p = t" "1 < d \<longrightarrow> (\<exists>q. nestedUnder sub q p (d - 1))"
      unfolding nestedOnly_def by blast+
    with root show ?thesis by auto
  next
    case later
    with assms(2) have s: "singleParent g c" "c \<in> set (childrenOf g p)" "1 \<le> d"
      "d = 1 \<longrightarrow> JStr p \<noteq> root \<and> p \<in> set ts" "1 < d \<longrightarrow> (\<exists>q. nestedUnder later q p (d - 1))"
      unfolding topOnly_def by blast+
    then show ?thesis by auto
  qed
qed

lemma topOnly_root:
  assumes later: "topOnly g root ts later"
  shows "topOnly g root (t # ts) (TopItem t tn r # later)"
  using assms unfolding topOnly_def by auto

lemma nestedAll_top:
  "nestedAll g sub \<Longrightarrow> nestedAll g later \<Longrightarrow> nestedAll g (TopItem t tn r # sub @ later)"
  unfolding nestedAll_def by auto

lemma tableOfContentsItems_loop_entries:
  assumes "tableOfContentsItems_loop k schema g rest = Inr items"
  shows "map itemTitle (filter isTop items)
           = map fst (filter (listedAtTop (get schema ''title'')) rest)
       \<and> topOnly g (get schema ''title'') (map fst (filter (listedAtTop (get schema ''title'')) rest)) items
       \<and> (\<forall>entry\<in>set (filter (listedAtTop (get schema ''title'')) rest).
            JStr (fst entry) \<noteq> get schema ''title'' \<longrightarrow>
            (\<forall>c\<in>set (childrenOf g (fst entry)). singleParent g c
               \<longrightarrow> nestedUnder items (fst entry) c 1))
       \<and> nestedAll g items"
  using assms
proof (induction rest arbitrary: items)
  case Nil
  then show ?case by simp
next
  case (Cons entry rest)
  let ?root = "get schema ''title''"
  obtain title currentType where entry: "entry = (title, currentType)" by (cases entry)
  from Cons.prems have root: "getE schema ''title'' = Inr ?root"
    by (auto simp: entry andThen_Inr_iff getE_def split: if_splits)
  show ?case
  proof (cases "listedAtTop ?root (title, currentType)")
    case False
    with Cons.prems root have "tableOfContentsItems_loop k schema g rest = Inr items"
      by (simp add: entry)
    from Cons.IH[OF this] False show ?thesis by (simp add: entry)
  next
    case True
    with Cons.prems root obtain typeName sub later where
      parts: "(if JStr title \<noteq> ?root then recursiveItems k g title 1 else Inr []) = Inr sub"
        "tableOfContentsItems_loop k schema g rest = Inr later"
        "items = TopItem title typeName (JStr title = ?root) # sub @ later"
      by (auto simp: entry andThen_Inr_iff)
    note ih = Cons.IH[OF parts(2)]
    have subOnly: "nestedOnly g 1 title (childrenOf g title) sub"
      using parts(1) recursiveItems_nestedOnly(1)[of k g title 1]
      by (auto split: if_splits)
    have subAll: "nestedAll g sub"
      using parts(1) recursiveItems_nestedAll(1)[of k g title 1]
      by (auto split: if_splits)
    have subFirst: "JStr title \<noteq> ?root \<Longrightarrow>
        \<forall>c\<in>set (childrenOf g title). singleParent g c \<longrightarrow> nestedUnder sub title c 1"
      using parts(1) recursiveItems_nestedAll(1)[of k g title 1]
      by (auto split: if_splits)
    have tops: "map itemTitle (filter isTop items)
           = map fst (filter (listedAtTop ?root) (entry # rest))"
      using ih True filter_isTop_nestedOnly[OF subOnly] by (simp add: parts(3) entry)
    have only: "topOnly g ?root (map fst (filter (listedAtTop ?root) (entry # rest))) items"
    proof (cases "JStr title = ?root")
      case True
      with parts(1) have "sub = []" by simp
      with ih \<open>listedAtTop ?root (title, currentType)\<close> show ?thesis
        by (simp add: parts(3) entry topOnly_root)
    next
      case False
      with ih \<open>listedAtTop ?root (title, currentType)\<close> subOnly show ?thesis
        by (simp add: parts(3) entry topOnly_step)
    qed
    have first: "\<forall>e\<in>set (filter (listedAtTop ?root) (entry # rest)).
            JStr (fst e) \<noteq> ?root \<longrightarrow>
            (\<forall>c\<in>set (childrenOf g (fst e)). singleParent g c \<longrightarrow> nestedUnder items (fst e) c 1)"
      using ih subFirst by (auto simp: parts(3) entry)
    have all: "nestedAll g items"
      unfolding parts(3) using subAll ih by (intro nestedAll_top) auto
    from tops only first all show ?thesis by blast
  qed
qed

text \<open>
  Claim C7, as the code has it. Let \<open>items\<close> be the bullets of a table of contents that
  completes. The top-level bullets are, in order, the types that are the root, or have
  more than one parent, or have the root among their parents. A bullet for \<open>c\<close> nested
  under \<open>p\<close> exists only if \<open>c\<close> has exactly one parent and is a child of \<open>p\<close>; at depth
  1 the parent is a top-level bullet other than the root, deeper the parent is itself
  nested one level higher. Conversely every child with exactly one parent is nested at
  depth 1 under each top-level bullet other than the root that lists it as a child, and
  one level deeper under each nested bullet that does. Nothing is nested under the root's
  own bullet. The text of the source is the rendering of these bullets.
\<close>

theorem table_of_contents_entries:
  assumes "tableOfContentsItems stack schema orderedTypes = Inr items"
  shows "map itemTitle (filter isTop items)
           = map fst (filter (listedAtTop (get schema ''title'')) orderedTypes)
     \<and> (\<forall>p c d. nestedUnder items p c d \<longrightarrow>
           singleParent orderedTypes c \<and> c \<in> set (childrenOf orderedTypes p) \<and> 1 \<le> d)
     \<and> (\<forall>p c. nestedUnder items p c 1 \<longrightarrow>
           JStr p \<noteq> get schema ''title'' \<and> p \<in> set (map itemTitle (filter isTop items)))
     \<and> (\<forall>p c d. nestedUnder items p c d \<and> 1 < d \<longrightarrow> (\<exists>q. nestedUnder items q p (d - 1)))
     \<and> (\<forall>t\<in>set (map itemTitle (filter isTop items)). JStr t \<noteq> get schema ''title'' \<longrightarrow>
           (\<forall>c\<in>set (childrenOf orderedTypes t). singleParent orderedTypes c
              \<longrightarrow> nestedUnder items t c 1))
     \<and> (\<forall>p c d. nestedUnder items p c d \<longrightarrow>
           (\<forall>c'\<in>set (childrenOf orderedTypes c). singleParent orderedTypes c'
              \<longrightarrow> nestedUnder items c c' (Suc d)))
     \<and> getTableOfContentsMarkdown st stack schema orderedTypes headerLevel
       = Inr (getHeaderMarkdown st headerLevel @ '' Objects'' @ NL
              @ concat (map (renderItem st) items))"
proof -
  let ?root = "get schema ''title''"
  from assms have loop: "tableOfContentsItems_loop stack schema orderedTypes orderedTypes = Inr items"
    by (simp add: tableOfContentsItems_def)
  note e = tableOfContentsItems_loop_entries[OF loop]
  from e have tops: "map itemTitle (filter isTop items)
           = map fst (filter (listedAtTop ?root) orderedTypes)" by blast
  from e have only: "topOnly orderedTypes ?root (map itemTitle (filter isTop items)) items"
    by (simp add: tops)
  from e have first: "\<forall>entry\<in>set (filter (listedAtTop ?root) orderedTypes).
            JStr (fst entry) \<noteq> ?root \<longrightarrow>
            (\<forall>c\<in>set (childrenOf orderedTypes (fst entry)). singleParent orderedTypes c
               \<longrightarrow> nestedUnder items (fst entry) c 1)" by blast
  from e have all: "nestedAll orderedTypes items" by blast
  have rendered: "getTableOfContentsMarkdown st stack schema orderedTypes headerLevel
       = Inr (getHeaderMarkdown st headerLevel @ '' Objects'' @ NL
              @ concat (map (renderItem st) items))"
    by (simp add: getTableOfContentsMarkdown_items assms)
  show ?thesis
  proof (intro conjI allI impI ballI)
    show "map itemTitle (filter isTop items) = map fst (filter (listedAtTop ?root) orderedTypes)"
      by (rule tops)
  next
    fix p c d assume "nestedUnder items p c d"
    with only show "singleParent orderedTypes c" "c \<in> set (childrenOf orderedTypes p)" "1 \<le> d"
      unfolding topOnly_def by blast+
  next
    fix p c assume "nestedUnder items p c 1"
    with only show "JStr p \<noteq> ?root" "p \<in> set (map itemTitle (filter isTop items))"
      unfolding topOnly_def by blast+
  next
    fix p c d assume "nestedUnder items p c d \<and> 1 < d"
    with only show "\<exists>q. nestedUnder items q p (d - 1)"
      unfolding topOnly_def by blast
  next
    fix t c
    assume "t \<in> set (map itemTitle (filter isTop items))" "JStr t \<noteq> ?root"
      "c \<in> set (childrenOf orderedTypes t)" "singleParent orderedTypes c"
    with first show "nestedUnder items t c 1"
      unfolding tops by auto
  next
    fix p c d c'
    assume "nestedUnder items p c d" "c' \<in> set (childrenOf orderedTypes c)"
      "singleParent orderedTypes c'"
    with all show "nestedUnder items c c' (Suc d)"
      unfolding nestedAll_def by blast
  next
    show "getTableOfContentsMarkdown st stack schema orderedTypes headerLevel
       = Inr (getHeaderMarkdown st headerLevel @ '' Objects'' @ NL
              @ concat (map (renderItem st) items))"
      by (rule rendered)
  qed
qed

theorem table_of_contents_entries_witness:
  "tableOfContentsItems 1000 rootSchema familyGraph
     = Inr [TopItem ''A'' JUndefined False, NestedItem ''A'' ''A B'' JUndefined 1,
            TopItem ''Root'' JUndefined True, TopItem ''Shared'' JUndefined False]
   \<and> map fst (filter (listedAtTop (JStr ''Root'')) familyGraph) = [''A'', ''Root'', ''Shared'']
   \<and> singleParent familyGraph ''A B''
   \<and> nestedUnder [TopItem ''A'' JUndefined False, NestedItem ''A'' ''A B'' JUndefined 1,
                   TopItem ''Root'' JUndefined True, TopItem ''Shared'' JUndefined False]
        ''A'' ''A B'' 1
   \<and> getTableOfContentsMarkdown sampleStyle 1000 rootSchema familyGraph 1
     = Inr (''# Objects'' @ NL @ ''* [A](#reference-a)'' @ NL
            @ ''   * [B](#reference-a.b)'' @ NL
            @ ''* [Root](#reference-root) (root object)'' @ NL
            @ ''* [Shared](#reference-shared)'' @ NL)"
proof -
  let ?items = "[TopItem ''A'' JUndefined False, NestedItem ''A'' ''A B'' JUndefined 1,
                 TopItem ''Root'' JUndefined True, TopItem ''Shared'' JUndefined False]"
  have run: "tableOfContentsItems 1000 rootSchema familyGraph = Inr ?items"
    by code_simp
  note facts = table_of_contents_entries[OF run, of sampleStyle 1]
  have root: "get rootSchema ''title'' = JStr ''Root''"
    by (simp add: rootSchema_def)
  have single: "singleParent familyGraph ''A B''" "''A B'' \<in> set (childrenOf familyGraph ''A'')"
    by (simp_all add: singleParent_def childrenOf_def familyGraph_def)
  have tops: "map fst (filter (listedAtTop (JStr ''Root'')) familyGraph) = [''A'', ''Root'', ''Shared'']"
    using facts by (simp add: root)
  have nested: "nestedUnder ?items ''A'' ''A B'' 1"
  proof -
    from facts have "\<forall>t\<in>set (map itemTitle (filter isTop ?items)).
        JStr t \<noteq> get rootSchema ''title'' \<longrightarrow>
           (\<forall>c\<in>set (childrenOf familyGraph t). singleParent familyGraph c
              \<longrightarrow> nestedUnder ?items t c 1)"
      by blast
    then have "\<forall>c\<in>set (childrenOf familyGraph ''A''). singleParent familyGraph c
              \<longrightarrow> nestedUnder ?items ''A'' c 1"
      by (simp add: root)
    with single show ?thesis by blast
  qed
  have rendered: "getTableOfContentsMarkdown sampleStyle 1000 rootSchema familyGraph 1
     = Inr (''# Objects'' @ NL @ ''* [A](#reference-a)'' @ NL
            @ ''   * [B](#reference-a.b)'' @ NL
            @ ''* [Root](#reference-root) (root object)'' @ NL
            @ ''* [Shared](#reference-shared)'' @ NL)"
  proof -
    from facts have "getTableOfContentsMarkdown sampleStyle 1000 rootSchema familyGraph 1
       = Inr (getHeaderMarkdown sampleStyle 1 @ '' Objects'' @ NL
              @ concat (map (renderItem sampleStyle) ?items))"
      by blast
    also have "getHeaderMarkdown sampleStyle 1 @ '' Objects'' @ NL
              @ concat (map (renderItem sampleStyle) ?items)
        = ''# Objects'' @ NL @ ''* [A](#reference-a)'' @ NL
            @ ''   * [B](#reference-a.b)'' @ NL
            @ ''* [Root](#reference-root) (root object)'' @ NL
            @ ''* [Shared](#reference-shared)'' @ NL"
      by code_simp
    finally show ?thesis .
  qed
  from run tops single(1) nested rendered show ?thesis by simp
qed

text \<open>
  Claim C7 as stated fails on \<open>rootAndChild\<close>: \<open>Root Child\<close> has exactly one parent,
  the root, and is not nested under it; the table of contents has two top-level bullets
  and no nested one.
\<close>

theorem nested_iff_single_parent_counterexample:
  "tableOfContentsItems 1000 rootSchema rootAndChild
     = Inr [TopItem ''Root'' JUndefined True, TopItem ''Root Child'' JUndefined False]
   \<and> singleParent rootAndChild ''Root Child''
   \<and> childrenOf rootAndChild ''Root'' = [''Root Child'']
   \<and> \<not> nestedUnder [TopItem ''Root'' JUndefined True, TopItem ''Root Child'' JUndefined False]
          ''Root'' ''Root Child'' 1
   \<and> list_all isTop [TopItem ''Root'' JUndefined True, TopItem ''Root Child'' JUndefined False]"
  by code_simp

text \<open>
  Claim C4, as the code has it. For the root \<open>Root\<close> with the one child \<open>Root Child\<close>,
  whose only parent is the root, the table of contents is the header, the root's bullet
  and a top-level bullet for the child with its full title: no bullet is nested, no
  prefix stripped. The prefix is stripped beneath an entry that is not the root: with a
  type \<open>Root Child Leaf\<close> whose only parent is \<open>Root Child\<close>, the leaf is nested at depth
  1 under \<open>Root Child\<close> with the label \<open>Leaf\<close>.
\<close>

theorem root_child_listed_at_top_level:
  "getTableOfContentsMarkdown st (Suc stack) rootSchema rootAndChild headerLevel
     = Inr (getHeaderMarkdown st headerLevel @ '' Objects'' @ NL
            @ bulletItem st (getTOCLink st ''Root'' (JStr ''root'') @ '' (root object)'') None
            @ bulletItem st (getTOCLink st ''Root Child'' (JStr ''root.child'')) None)
   \<and> tableOfContentsItems (Suc stack) rootSchema rootAndChild
     = Inr [TopItem ''Root'' JUndefined True, TopItem ''Root Child'' JUndefined False]
   \<and> getTableOfContentsMarkdown st (Suc (Suc stack)) rootSchema rootChildLeaf headerLevel
     = Inr (getHeaderMarkdown st headerLevel @ '' Objects'' @ NL
            @ bulletItem st (getTOCLink st ''Root'' (JStr ''root'') @ '' (root object)'') None
            @ bulletItem st (getTOCLink st ''Root Child'' (JStr ''root.child'')) None
            @ bulletItem st (getTOCLink st ''Leaf'' (JStr ''root.child.leaf'')) (Some 1))
   \<and> tableOfContentsItems (Suc (Suc stack)) rootSchema rootChildLeaf
     = Inr [TopItem ''Root'' JUndefined True, TopItem ''Root Child'' JUndefined False,
            NestedItem ''Root Child'' ''Root Child Leaf'' JUndefined 1]"
proof -
  have names: "tocTypeName JUndefined ''Root'' = JStr ''root''"
    "tocTypeName JUndefined ''Root Child'' = JStr ''root.child''"
    "tocTypeName JUndefined ''Root Child Leaf'' = JStr ''root.child.leaf''"
    "replaceFirst ''Root Child '' [] ''Root Child Leaf'' = ''Leaf''"
    by code_simp+
  have child: "tableOfContentsItems (Suc stack) rootSchema rootAndChild
     = Inr [TopItem ''Root'' JUndefined True, TopItem ''Root Child'' JUndefined False]"
    by (simp add: tableOfContentsItems_def rootAndChild_def rootSchema_def getE_def defined_def
          listedAtTop_def)
  have leaf: "tableOfContentsItems (Suc (Suc stack)) rootSchema rootChildLeaf
     = Inr [TopItem ''Root'' JUndefined True, TopItem ''Root Child'' JUndefined False,
            NestedItem ''Root Child'' ''Root Child Leaf'' JUndefined 1]"
    by (simp add: tableOfContentsItems_def rootChildLeaf_def rootSchema_def getE_def defined_def
          listedAtTop_def)
  show ?thesis
    by (simp add: getTableOfContentsMarkdown_items child leaf names)
qed

text \<open>
  Claim C4 as stated fails: with the sample style the table of contents of
  \<open>rootAndChild\<close> has the child as the top-level bullet \<open>Root Child\<close>, and no bullet
  labelled \<open>Child\<close>.
\<close>

theorem root_child_nested_counterexample:
  "getTableOfContentsMarkdown sampleStyle 1000 rootSchema rootAndChild 1
     = Inr (''# Objects'' @ NL @ ''* [Root](#reference-root) (root object)'' @ NL
            @ ''* [Root Child](#reference-root.child)'' @ NL)
   \<and> \<not> contains (''# Objects'' @ NL @ ''* [Root](#reference-root) (root object)'' @ NL
                   @ ''* [Root Child](#reference-root.child)'' @ NL) ''[Child]''"
  by code_simp

end
